theory Spec2Isabelle
  imports Main "HOL-Library.Char_ord" "HOL-Library.List_Lexorder"
begin

section \<open>JavaScript numbers\<close>

text \<open>
  A JavaScript number is an IEEE 754 double. The numbers that matter here are counts and
  page numbers, so a finite double with an integer value is held as that integer, and
  arithmetic rounds the exact result to the nearest double, ties to the even significand
  of 53 bits: \<open>shift_of a\<close> is the number of low bits of \<open>a\<close> that do not fit.
  An integer below \<open>2^53\<close> in magnitude is its own double (\<open>Number.isSafeInteger\<close>).
  Adding or subtracting 1 never takes a finite double out of the finite range, so no
  infinity arises in the client's arithmetic.
\<close>

fun shift_of :: "nat \<Rightarrow> nat" where
  "shift_of a = (if a < 2 ^ 53 then 0 else Suc (shift_of (a div 2)))"

declare shift_of.simps [simp del]

definition round_nat :: "nat \<Rightarrow> nat" where
  "round_nat a =
     (let s = shift_of a; q = a div 2 ^ s; r = a mod 2 ^ s
      in if 2 ^ s < 2 * r \<or> (2 * r = 2 ^ s \<and> odd q) then (q + 1) * 2 ^ s else q * 2 ^ s)"

definition to_double :: "int \<Rightarrow> int" where
  "to_double n = (if n < 0 then - int (round_nat (nat (- n))) else int (round_nat (nat n)))"

definition safe_integer :: "int \<Rightarrow> bool" where
  "safe_integer n = (- (2 ^ 53) < n \<and> n < 2 ^ 53)"

text \<open>
  The numbers of the paging code: \<open>NaN\<close>; \<open>Num n\<close>, the integer \<open>n\<close> below \<open>2^53\<close> in
  magnitude, held exactly; and \<open>Big v\<close>, the double the runtime holds in place of the
  integer \<open>v\<close> of magnitude \<open>2^53\<close> or more. Which double that is (a rounded value or an
  infinity; \<open>parseInt\<close> may even approximate after 20 digits) is not tracked: what the
  code does with it is left to the environment of the invocation.
\<close>

datatype jsnum = NaN | Num int | Big int

definition js_num :: "int \<Rightarrow> jsnum" where
  "js_num v = (if safe_integer v then Num v else Big v)"

text \<open>
  \<open>a - b\<close> for an integer literal \<open>b\<close> and \<open>a * b\<close>: the exact result where both operands
  are held exactly, \<open>NaN\<close> where an operand is \<open>NaN\<close>, and \<open>None\<close>, a number that is not
  tracked, where an operand is \<open>Big\<close>.
\<close>

definition js_minus :: "jsnum \<Rightarrow> int \<Rightarrow> jsnum option" where
  "js_minus a b =
     (case a of
        NaN \<Rightarrow> Some NaN
      | Num x \<Rightarrow> if safe_integer x \<and> safe_integer b then Some (js_num (x - b)) else None
      | Big v \<Rightarrow> None)"

definition js_times :: "jsnum option \<Rightarrow> jsnum \<Rightarrow> jsnum option" where
  "js_times a b =
     (if a = Some NaN \<or> b = NaN then Some NaN
      else case (a, b) of
             (Some (Num x), Num y) \<Rightarrow>
               if safe_integer x \<and> safe_integer y then Some (js_num (x * y)) else None
           | _ \<Rightarrow> None)"

section \<open>Client side: the photo context (PhotoContext, optimistic like)\<close>

text \<open>
  The client keeps a list of photos in React state. Only the fields the like and unlike
  actions read or write are named; every other field of the client \<open>Photo\<close> type rides
  along in the record's extension, which the spread \<open>{...photo, ...}\<close> copies unchanged.
  The like count is a number with an integer value; \<open>photo.likes + 1\<close> and
  \<open>photo.likes - 1\<close> are the exact sum and difference rounded to a double.
\<close>

record cphoto =
  cp_id :: string
  cp_likes :: int
  cp_likedBy :: "string list"

record cuser =
  u_id :: string
  u_role :: string

text \<open>
  The updater passed to \<open>setPhotos\<close> before the network call
  (\<open>prev.map(photo => photo.id === photoId && !photo.likedBy.includes(user.id) ? ... : photo)\<close>).
\<close>

definition like_optimistic :: "string \<Rightarrow> string \<Rightarrow> 'a cphoto_scheme list \<Rightarrow> 'a cphoto_scheme list" where
  "like_optimistic uid photoId prev =
     map (\<lambda>photo.
       if cp_id photo = photoId \<and> uid \<notin> set (cp_likedBy photo)
       then photo\<lparr>cp_likes := to_double (cp_likes photo + 1),
                  cp_likedBy := cp_likedBy photo @ [uid]\<rparr>
       else photo) prev"

text \<open>The updater of the \<open>catch\<close> branch: every photo with the id is decremented.\<close>

definition like_revert :: "string \<Rightarrow> string \<Rightarrow> 'a cphoto_scheme list \<Rightarrow> 'a cphoto_scheme list" where
  "like_revert uid photoId prev =
     map (\<lambda>photo.
       if cp_id photo = photoId
       then photo\<lparr>cp_likes := to_double (cp_likes photo - 1),
                  cp_likedBy := filter (\<lambda>i. i \<noteq> uid) (cp_likedBy photo)\<rparr>
       else photo) prev"

text \<open>
  What the \<open>try\<close> block does: \<open>getAccessToken\<close> and then \<open>photoService.likePhoto\<close>, which
  returns at once when no backend is configured and otherwise throws on a network error or
  a response that is not ok.
\<close>

record sync_env =
  token_fails :: bool
  azure_configured :: bool
  http_ok :: bool

definition photoService_likePhoto :: "sync_env \<Rightarrow> bool" where
  "photoService_likePhoto e = (if \<not> azure_configured e then True else http_ok e)"

definition sync_succeeds :: "sync_env \<Rightarrow> bool" where
  "sync_succeeds e = (if token_fails e then False else photoService_likePhoto e)"

text \<open>
  The action \<open>likePhoto\<close> of the context: the first component is the state right after the
  synchronous part (before the first \<open>await\<close>), the second the state once the promise has
  settled, when no other update came in between.
\<close>

definition client_likePhoto ::
  "cuser option \<Rightarrow> sync_env \<Rightarrow> string \<Rightarrow> 'a cphoto_scheme list
     \<Rightarrow> 'a cphoto_scheme list \<times> 'a cphoto_scheme list" where
  "client_likePhoto user e photoId photos =
     (case user of
        None \<Rightarrow> (photos, photos)
      | Some u \<Rightarrow>
          let applied = like_optimistic (u_id u) photoId photos
          in if sync_succeeds e then (applied, applied)
             else (applied, like_revert (u_id u) photoId applied))"

section \<open>Server side: documents, requests and responses\<close>

text \<open>
  The three document types of the handlers. A field that the code can store as \<open>null\<close> or
  leave out is an \<open>option\<close>: \<open>creatorId\<close> and \<open>creatorName\<close> are the raw values of
  \<open>headers.get\<close>, which is \<open>null\<close> for an absent header. Strings are lists of 8-bit
  characters, read as code units below 256.
\<close>

record photo =
  p_id :: string
  p_creatorId :: "string option"
  p_creatorName :: "string option"
  p_imageUrl :: string
  p_title :: string
  p_caption :: "string option"
  p_location :: "string option"
  p_people :: "string list option"
  p_likes :: int
  p_createdAt :: string

record like =
  l_id :: string
  l_photoId :: string
  l_userId :: string
  l_createdAt :: string

record comment =
  c_id :: string
  c_photoId :: string
  c_userId :: string
  c_userName :: string
  c_userAvatar :: "string option"
  c_content :: string
  c_createdAt :: string

text \<open>
  The JSON values the handlers put into the cache and get back from it. The cache is
  untyped: \<open>cacheGet<T>\<close> returns whatever \<open>JSON.parse\<close> yields for the key.
\<close>

datatype cval = VNum int | VPhoto photo | VPhotos "photo list" | VComments "comment list"

text \<open>JavaScript truthiness, as \<open>if (cached)\<close> tests it: objects and arrays are truthy, \<open>0\<close> is not.\<close>

fun truthy :: "cval \<Rightarrow> bool" where
  "truthy (VNum n) = (n \<noteq> 0)"
| "truthy (VPhoto p) = True"
| "truthy (VPhotos ps) = True"
| "truthy (VComments cs) = True"

datatype body =
    BError string
  | BValue cval
  | BComment comment
  | BLikes cval bool
  | BLikeResult bool int

record response =
  status :: nat
  jsonBody :: "body option"

definition json_resp :: "nat \<Rightarrow> body \<Rightarrow> response" where
  "json_resp st b = \<lparr>status = st, jsonBody = Some b\<rparr>"

text \<open>
  The request. What \<open>request.json()\<close> resolves to is kept as far as \<open>createComment\<close> looks
  at it: \<open>null\<close>, or a value with an optional \<open>content\<close> property that is a string, some
  other falsy value, or some other truthy value.
\<close>

datatype content_val = CStr string | CFalsy | CTruthy

datatype json_in = JNull | JObj "content_val option"

record upload_file =
  f_name :: string
  f_type :: string
  f_data :: string

record form =
  fd_image :: "upload_file option"
  fd_title :: "string option"
  fd_caption :: "string option"
  fd_location :: "string option"
  fd_people :: "string option"

datatype req_body = NoBody | JsonBody json_in | FormBody form

record request =
  params :: "string \<rightharpoonup> string"
  headers :: "string \<rightharpoonup> string"
  query :: "string \<rightharpoonup> string"
  req_body :: req_body

section \<open>The outside world: store, cache, blob storage\<close>

datatype container = PHOTOS | LIKES | COMMENTS

text \<open>Every call a handler makes to a service outside the process.\<close>

datatype extop =
    CacheGet string
  | CacheSet string nat
  | CacheDel "string list"
  | CacheKeys string
  | GetContainer container
  | Query container
  | ItemRead container string string
  | ItemsCreate container
  | ItemsUpsert container
  | ItemDelete container string string
  | BlobUpload string
  | BlobDeleteIfExists string

datatype exn = ServiceError extop | Conflict | NotFound | BadRequest | SyntaxError | TypeError

text \<open>
  \<open>lib/cosmos\<close> is not among the sources, so the partition key of the Likes container is a
  parameter. Photos are addressed as \<open>item(id, id)\<close> and comments as
  \<open>item(id, photoId)\<close> throughout.
\<close>

datatype pk_field = PkId | PkPhotoId

text \<open>
  What one invocation gets from outside: which service calls fail, the value \<open>uuidv4()\<close>
  returns, the value of \<open>new Date().toISOString()\<close>, and the URL the blob client reports
  for a blob name. Two more fields say what happens beyond the integers that are held
  exactly: \<open>big_string v\<close> is what \<open>String\<close> prints for the double the runtime holds in
  place of the integer \<open>v\<close>, and \<open>big_query docs\<close> is the store's answer to the page query
  over the documents \<open>docs\<close> when the offset or the limit is such a number.
\<close>

record env =
  faulty :: "extop \<Rightarrow> bool"
  uuidv4 :: string
  now_iso :: string
  likes_pk :: pk_field
  blob_url :: "string \<Rightarrow> string"
  big_string :: "int \<Rightarrow> string"
  big_query :: "photo list \<Rightarrow> exn + photo list"

record world =
  db_photos :: "photo list"
  db_likes :: "like list"
  db_comments :: "comment list"
  blob_store :: "(string \<times> string \<times> string) list"
  redis :: "(string \<times> cval \<times> nat) list"
  trace :: "extop list"


text \<open>
  An awaited call either throws or returns, and what it wrote before throwing stays
  written: the state is threaded through both outcomes.
\<close>

type_synonym 'a io = "world \<Rightarrow> (exn + 'a) \<times> world"

definition ret :: "'a \<Rightarrow> 'a io" where
  "ret x = (\<lambda>w. (Inr x, w))"

definition throw :: "exn \<Rightarrow> 'a io" where
  "throw e = (\<lambda>w. (Inl e, w))"

definition bnd :: "'a io \<Rightarrow> ('a \<Rightarrow> 'b io) \<Rightarrow> 'b io" where
  "bnd m f = (\<lambda>w. case m w of (Inl e, w') \<Rightarrow> (Inl e, w') | (Inr x, w') \<Rightarrow> f x w')"

text \<open>\<open>try { ... } catch (error) { return r500 }\<close> around a handler's body.\<close>

definition try_catch :: "response io \<Rightarrow> response \<Rightarrow> world \<Rightarrow> response \<times> world" where
  "try_catch m r500 w = (case m w of (Inl e, w') \<Rightarrow> (r500, w') | (Inr r, w') \<Rightarrow> (r, w'))"

text \<open>A service call: it is recorded in the trace, then fails or runs.\<close>

definition call :: "env \<Rightarrow> extop \<Rightarrow> 'a io \<Rightarrow> 'a io" where
  "call e op m = (\<lambda>w. let w' = w\<lparr>trace := trace w @ [op]\<rparr>
                      in if faulty e op then (Inl (ServiceError op), w') else m w')"

text \<open>\<open>if (!v) return r;\<close> for a string that may be \<open>null\<close>: the rest sees the string.\<close>

definition require_str :: "string option \<Rightarrow> response \<Rightarrow> (string \<Rightarrow> response io) \<Rightarrow> response io" where
  "require_str v r k = (case v of None \<Rightarrow> ret r | Some s \<Rightarrow> if s = [] then ret r else k s)"

subsection \<open>lib/redis\<close>

definition cacheGet :: "env \<Rightarrow> string \<Rightarrow> cval option io" where
  "cacheGet e key = call e (CacheGet key) (\<lambda>w. (Inr (map_option fst (map_of (redis w) key)), w))"

definition cacheSet :: "env \<Rightarrow> string \<Rightarrow> cval \<Rightarrow> nat \<Rightarrow> unit io" where
  "cacheSet e key v ttlSeconds =
     call e (CacheSet key ttlSeconds)
       (\<lambda>w. (Inr (), w\<lparr>redis := (key, v, ttlSeconds) # filter (\<lambda>en. fst en \<noteq> key) (redis w)\<rparr>))"

definition redis_del :: "env \<Rightarrow> string list \<Rightarrow> unit io" where
  "redis_del e keys =
     call e (CacheDel keys) (\<lambda>w. (Inr (), w\<lparr>redis := filter (\<lambda>en. fst en \<notin> set keys) (redis w)\<rparr>))"

definition cacheDelete :: "env \<Rightarrow> string \<Rightarrow> unit io" where
  "cacheDelete e key = redis_del e [key]"

text \<open>Redis glob patterns, as far as \<open>*\<close> and \<open>?\<close>; the code's only pattern is \<open>photos:*\<close>.\<close>

fun glob_match :: "string \<Rightarrow> string \<Rightarrow> bool" where
  "glob_match [] s = (s = [])"
| "glob_match (p # ps) [] = (p = CHR ''*'' \<and> glob_match ps [])"
| "glob_match (p # ps) (c # cs) =
     (if p = CHR ''*'' then glob_match ps (c # cs) \<or> glob_match (p # ps) cs
      else (p = CHR ''?'' \<or> p = c) \<and> glob_match ps cs)"

definition redis_keys :: "env \<Rightarrow> string \<Rightarrow> string list io" where
  "redis_keys e pattern =
     call e (CacheKeys pattern) (\<lambda>w. (Inr (filter (glob_match pattern) (map fst (redis w))), w))"

definition cacheInvalidatePattern :: "env \<Rightarrow> string \<Rightarrow> unit io" where
  "cacheInvalidatePattern e pattern =
     bnd (redis_keys e pattern) (\<lambda>keys. if length keys > 0 then redis_del e keys else ret ())"

fun string_of_nat :: "nat \<Rightarrow> string" where
  "string_of_nat n =
     (if n < 10 then [char_of (48 + n)]
      else string_of_nat (n div 10) @ [char_of (48 + n mod 10)])"

declare string_of_nat.simps [simp del]

text \<open>
  \<open>String(n)\<close>, the conversion of the template literal: the decimal digits for an integer
  that is held exactly (below \<open>10^21\<close> there is no exponent), \<open>NaN\<close>, and what the
  environment prints for a \<open>Big\<close> number.
\<close>

definition js_string_of_num :: "env \<Rightarrow> jsnum \<Rightarrow> string" where
  "js_string_of_num e n =
     (case n of
        NaN \<Rightarrow> ''NaN''
      | Num i \<Rightarrow>
          if safe_integer i
          then (if i < 0 then CHR ''-'' # string_of_nat (nat (- i)) else string_of_nat (nat i))
          else big_string e i
      | Big v \<Rightarrow> big_string e v)"

definition CACHE_KEYS_photo :: "string \<Rightarrow> string" where
  "CACHE_KEYS_photo ident = ''photo:'' @ ident"

definition CACHE_KEYS_photos :: "env \<Rightarrow> jsnum \<Rightarrow> string" where
  "CACHE_KEYS_photos e page = ''photos:page:'' @ js_string_of_num e page"

definition CACHE_KEYS_photoLikes :: "string \<Rightarrow> string" where
  "CACHE_KEYS_photoLikes photoId = ''photo:'' @ photoId @ '':likes''"

definition CACHE_KEYS_photoComments :: "string \<Rightarrow> string" where
  "CACHE_KEYS_photoComments photoId = ''photo:'' @ photoId @ '':comments''"

subsection \<open>lib/storage\<close>

definition uploadPhoto :: "env \<Rightarrow> string \<Rightarrow> string \<Rightarrow> string \<Rightarrow> string io" where
  "uploadPhoto e fileName data contentType =
     call e (BlobUpload fileName)
       (\<lambda>w. (Inr (blob_url e fileName),
              w\<lparr>blob_store := (fileName, data, contentType)
                                # filter (\<lambda>b. fst b \<noteq> fileName) (blob_store w)\<rparr>))"

definition deletePhoto :: "env \<Rightarrow> string \<Rightarrow> unit io" where
  "deletePhoto e fileName =
     call e (BlobDeleteIfExists fileName)
       (\<lambda>w. (Inr (), w\<lparr>blob_store := filter (\<lambda>b. fst b \<noteq> fileName) (blob_store w)\<rparr>))"

subsection \<open>The document store, as the handlers use it\<close>

text \<open>
  \<open>item(id, pk).read()\<close> yields no resource for a missing item; \<open>items.create\<close> rejects an
  id already present in the partition; \<open>item(id, pk).delete()\<close> throws for a missing item;
  a query returns the matching documents, sorted where it says \<open>ORDER BY\<close>. The order on
  \<open>createdAt\<close> is the order on strings, which for the fixed-width output of
  \<open>toISOString\<close> is the order in time. The containers are lists of documents; where the
  store keeps one document per id and partition, the list operations act on every match.

  \<open>getContainer\<close> comes from \<open>lib/cosmos\<close>, which is not among the sources: it is taken
  as a call that hands out the named container or throws.
\<close>

definition getContainer :: "env \<Rightarrow> container \<Rightarrow> unit io" where
  "getContainer e c = call e (GetContainer c) (ret ())"

definition photo_item_read :: "env \<Rightarrow> string \<Rightarrow> string \<Rightarrow> photo option io" where
  "photo_item_read e ident pk =
     call e (ItemRead PHOTOS ident pk)
       (\<lambda>w. (Inr (find (\<lambda>p. p_id p = ident \<and> p_id p = pk) (db_photos w)), w))"

definition photo_items_create :: "env \<Rightarrow> photo \<Rightarrow> unit io" where
  "photo_items_create e p =
     call e (ItemsCreate PHOTOS)
       (\<lambda>w. if p_id p \<in> set (map p_id (db_photos w)) then (Inl Conflict, w)
             else (Inr (), w\<lparr>db_photos := db_photos w @ [p]\<rparr>))"

definition photo_items_upsert :: "env \<Rightarrow> photo \<Rightarrow> unit io" where
  "photo_items_upsert e p =
     call e (ItemsUpsert PHOTOS)
       (\<lambda>w. (Inr (),
              w\<lparr>db_photos :=
                  (if p_id p \<in> set (map p_id (db_photos w))
                   then map (\<lambda>q. if p_id q = p_id p then p else q) (db_photos w)
                   else db_photos w @ [p])\<rparr>))"

definition photo_item_delete :: "env \<Rightarrow> string \<Rightarrow> string \<Rightarrow> unit io" where
  "photo_item_delete e ident pk =
     call e (ItemDelete PHOTOS ident pk)
       (\<lambda>w. if filter (\<lambda>p. p_id p = ident \<and> p_id p = pk) (db_photos w) = []
             then (Inl NotFound, w)
             else (Inr (), w\<lparr>db_photos :=
                                 filter (\<lambda>p. \<not> (p_id p = ident \<and> p_id p = pk)) (db_photos w)\<rparr>))"

definition sort_createdAt_desc :: "('a \<Rightarrow> string) \<Rightarrow> 'a list \<Rightarrow> 'a list" where
  "sort_createdAt_desc createdAt xs = rev (sort_key createdAt xs)"

text \<open>
  \<open>SELECT * FROM c ORDER BY c.createdAt DESC OFFSET @offset LIMIT @limit\<close>. The store
  rejects a negative count and a parameter that is no number (\<open>NaN\<close> travels as \<open>null\<close>).
\<close>

definition photos_query_page :: "env \<Rightarrow> jsnum option \<Rightarrow> jsnum \<Rightarrow> photo list io" where
  "photos_query_page e offset limit =
     call e (Query PHOTOS)
       (\<lambda>w. if offset = Some NaN \<or> limit = NaN then (Inl BadRequest, w)
             else case (offset, limit) of
               (Some (Num off), Num lim) \<Rightarrow>
                 if safe_integer off \<and> safe_integer lim
                 then (if off < 0 \<or> lim < 0 then (Inl BadRequest, w)
                       else (Inr (take (nat lim) (drop (nat off)
                               (sort_createdAt_desc p_createdAt (db_photos w)))), w))
                 else (big_query e (db_photos w), w)
             | _ \<Rightarrow> (big_query e (db_photos w), w))"

definition like_pk :: "env \<Rightarrow> like \<Rightarrow> string" where
  "like_pk e l = (case likes_pk e of PkId \<Rightarrow> l_id l | PkPhotoId \<Rightarrow> l_photoId l)"

text \<open>\<open>SELECT * FROM c WHERE c.photoId = @photoId AND c.userId = @userId\<close>\<close>

definition likes_query_pair :: "env \<Rightarrow> string \<Rightarrow> string \<Rightarrow> like list io" where
  "likes_query_pair e photoId userId =
     call e (Query LIKES)
       (\<lambda>w. (Inr (filter (\<lambda>l. l_photoId l = photoId \<and> l_userId l = userId) (db_likes w)), w))"

text \<open>\<open>SELECT VALUE COUNT(1) FROM c WHERE c.photoId = @photoId\<close>\<close>

definition likes_query_count :: "env \<Rightarrow> string \<Rightarrow> int list io" where
  "likes_query_count e photoId =
     call e (Query LIKES)
       (\<lambda>w. (Inr [int (length (filter (\<lambda>l. l_photoId l = photoId) (db_likes w)))], w))"

definition like_items_create :: "env \<Rightarrow> like \<Rightarrow> unit io" where
  "like_items_create e l =
     call e (ItemsCreate LIKES)
       (\<lambda>w. if filter (\<lambda>k. l_id k = l_id l \<and> like_pk e k = like_pk e l) (db_likes w) \<noteq> []
             then (Inl Conflict, w)
             else (Inr (), w\<lparr>db_likes := db_likes w @ [l]\<rparr>))"

definition like_item_delete :: "env \<Rightarrow> string \<Rightarrow> string \<Rightarrow> unit io" where
  "like_item_delete e ident pk =
     call e (ItemDelete LIKES ident pk)
       (\<lambda>w. if filter (\<lambda>l. l_id l = ident \<and> like_pk e l = pk) (db_likes w) = []
             then (Inl NotFound, w)
             else (Inr (), w\<lparr>db_likes :=
                                 filter (\<lambda>l. \<not> (l_id l = ident \<and> like_pk e l = pk)) (db_likes w)\<rparr>))"

text \<open>\<open>SELECT * FROM c WHERE c.photoId = @photoId ORDER BY c.createdAt DESC\<close>\<close>

definition comments_query_photo :: "env \<Rightarrow> string \<Rightarrow> comment list io" where
  "comments_query_photo e photoId =
     call e (Query COMMENTS)
       (\<lambda>w. (Inr (sort_createdAt_desc c_createdAt
                     (filter (\<lambda>c. c_photoId c = photoId) (db_comments w))), w))"

text \<open>\<open>SELECT * FROM c WHERE c.id = @id\<close>\<close>

definition comments_query_id :: "env \<Rightarrow> string \<Rightarrow> comment list io" where
  "comments_query_id e ident =
     call e (Query COMMENTS) (\<lambda>w. (Inr (filter (\<lambda>c. c_id c = ident) (db_comments w)), w))"

definition comment_items_create :: "env \<Rightarrow> comment \<Rightarrow> unit io" where
  "comment_items_create e c =
     call e (ItemsCreate COMMENTS)
       (\<lambda>w. if filter (\<lambda>k. c_id k = c_id c \<and> c_photoId k = c_photoId c) (db_comments w) \<noteq> []
             then (Inl Conflict, w)
             else (Inr (), w\<lparr>db_comments := db_comments w @ [c]\<rparr>))"

definition comment_item_delete :: "env \<Rightarrow> string \<Rightarrow> string \<Rightarrow> unit io" where
  "comment_item_delete e ident pk =
     call e (ItemDelete COMMENTS ident pk)
       (\<lambda>w. if filter (\<lambda>c. c_id c = ident \<and> c_photoId c = pk) (db_comments w) = []
             then (Inl NotFound, w)
             else (Inr (), w\<lparr>db_comments :=
                                 filter (\<lambda>c. \<not> (c_id c = ident \<and> c_photoId c = pk)) (db_comments w)\<rparr>))"

section \<open>JavaScript string helpers\<close>

text \<open>The white space and line terminators \<open>trim\<close> strips, among the code units below 256.\<close>

definition is_ws :: "char \<Rightarrow> bool" where
  "is_ws c = ((of_char c :: nat) \<in> {9, 10, 11, 12, 13, 32, 160})"

definition trim :: "string \<Rightarrow> string" where
  "trim s = rev (dropWhile is_ws (rev (dropWhile is_ws s)))"

fun split_on :: "char \<Rightarrow> string \<Rightarrow> string list" where
  "split_on sep [] = [[]]"
| "split_on sep (x # xs) =
     (if x = sep then [] # split_on sep xs
      else (case split_on sep xs of [] \<Rightarrow> [[x]] | y # ys \<Rightarrow> (x # y) # ys))"

text \<open>\<open>s.split('/').pop()\<close>\<close>

definition last_segment :: "string \<Rightarrow> string" where
  "last_segment s = rev (takeWhile (\<lambda>c. c \<noteq> CHR ''/'') (rev s))"

definition digit_val :: "char \<Rightarrow> nat option" where
  "digit_val c =
     (let n = (of_char c :: nat) in
      if 48 \<le> n \<and> n \<le> 57 then Some (n - 48)
      else if 97 \<le> n \<and> n \<le> 102 then Some (n - 87)
      else if 65 \<le> n \<and> n \<le> 70 then Some (n - 55)
      else None)"

definition is_digit_in :: "nat \<Rightarrow> char \<Rightarrow> bool" where
  "is_digit_in radix c = (case digit_val c of None \<Rightarrow> False | Some d \<Rightarrow> d < radix)"

definition digits_value :: "nat \<Rightarrow> string \<Rightarrow> nat" where
  "digits_value radix ds = foldl (\<lambda>a c. radix * a + (case digit_val c of None \<Rightarrow> 0 | Some d \<Rightarrow> d)) 0 ds"

text \<open>
  \<open>parseInt(s)\<close> without a radix: leading white space, a sign, a \<open>0x\<close> prefix for base 16,
  then the longest run of digits; \<open>NaN\<close> when there is none. The result is the number for
  the value of the digits: that integer itself below \<open>2^53\<close>, a \<open>Big\<close> number from there.
\<close>

definition parseInt :: "string \<Rightarrow> jsnum" where
  "parseInt s =
     (let t = dropWhile is_ws s;
          neg = (case t of [] \<Rightarrow> False | c # _ \<Rightarrow> c = CHR ''-'');
          u = (case t of [] \<Rightarrow> [] | c # r \<Rightarrow> if c = CHR ''-'' \<or> c = CHR ''+'' then r else t);
          hex = (take 2 u = ''0x'' \<or> take 2 u = ''0X'');
          radix = (if hex then 16 else 10);
          v = (if hex then drop 2 u else u);
          ds = takeWhile (is_digit_in radix) v
      in if ds = [] then NaN
         else js_num ((if neg then - 1 else 1) * int (digits_value radix ds)))"

text \<open>\<open>request.query.get(name) || dflt\<close>\<close>

definition query_or :: "request \<Rightarrow> string \<Rightarrow> string \<Rightarrow> string" where
  "query_or request name dflt =
     (case query request name of None \<Rightarrow> dflt | Some v \<Rightarrow> if v = [] then dflt else v)"

text \<open>\<open>n || 0\<close> on a number.\<close>

definition or0 :: "int \<Rightarrow> int" where
  "or0 n = (if n = 0 then 0 else n)"

section \<open>Handlers: likes\<close>

definition getLikes :: "env \<Rightarrow> request \<Rightarrow> world \<Rightarrow> response \<times> world" where
  "getLikes e request =
     try_catch
       (require_str (params request ''photoId'') (json_resp 400 (BError ''Photo ID required''))
          (\<lambda>photoId.
             let userId = headers request ''x-user-id'';
                 cacheKey = CACHE_KEYS_photoLikes photoId
             in bnd (cacheGet e cacheKey) (\<lambda>cached.
                bnd (getContainer e LIKES) (\<lambda>_.
                bnd (case cached of
                       Some v \<Rightarrow> ret v
                     | None \<Rightarrow>
                         bnd (likes_query_count e photoId) (\<lambda>resources.
                         let likeCount = VNum (case resources of [] \<Rightarrow> 0 | n # _ \<Rightarrow> or0 n)
                         in bnd (cacheSet e cacheKey likeCount 60) (\<lambda>_. ret likeCount)))
                  (\<lambda>likeCount.
                bnd (case userId of
                       None \<Rightarrow> ret False
                     | Some u \<Rightarrow>
                         if u = [] then ret False
                         else bnd (likes_query_pair e photoId u)
                                (\<lambda>userLikes. ret (length userLikes > 0)))
                  (\<lambda>userHasLiked.
                ret (json_resp 200 (BLikes likeCount userHasLiked))))))))
       (json_resp 500 (BError ''Failed to fetch likes''))"

definition likePhoto :: "env \<Rightarrow> request \<Rightarrow> world \<Rightarrow> response \<times> world" where
  "likePhoto e request =
     try_catch
       (require_str (params request ''photoId'') (json_resp 400 (BError ''Photo ID required''))
          (\<lambda>photoId.
        require_str (headers request ''x-user-id'') (json_resp 401 (BError ''Not authenticated''))
          (\<lambda>userId.
             bnd (getContainer e PHOTOS) (\<lambda>_.
             bnd (photo_item_read e photoId photoId) (\<lambda>found.
             case found of
               None \<Rightarrow> ret (json_resp 404 (BError ''Photo not found''))
             | Some photo \<Rightarrow>
                 bnd (getContainer e LIKES) (\<lambda>_.
                 bnd (likes_query_pair e photoId userId) (\<lambda>existingLikes.
                 if length existingLikes > 0
                 then ret (json_resp 409 (BError ''Already liked''))
                 else
                   let like = \<lparr>l_id = uuidv4 e, l_photoId = photoId, l_userId = userId,
                               l_createdAt = now_iso e\<rparr>
                   in bnd (like_items_create e like) (\<lambda>_.
                      let photo' = photo\<lparr>p_likes := or0 (p_likes photo) + 1\<rparr>
                      in bnd (photo_items_upsert e photo') (\<lambda>_.
                         bnd (cacheDelete e (CACHE_KEYS_photoLikes photoId)) (\<lambda>_.
                         bnd (cacheDelete e (CACHE_KEYS_photo photoId)) (\<lambda>_.
                         ret (json_resp 201 (BLikeResult True (p_likes photo'))))))))))))))
       (json_resp 500 (BError ''Failed to like photo''))"

definition unlikePhoto :: "env \<Rightarrow> request \<Rightarrow> world \<Rightarrow> response \<times> world" where
  "unlikePhoto e request =
     try_catch
       (require_str (params request ''photoId'') (json_resp 400 (BError ''Photo ID required''))
          (\<lambda>photoId.
        require_str (headers request ''x-user-id'') (json_resp 401 (BError ''Not authenticated''))
          (\<lambda>userId.
             bnd (getContainer e LIKES) (\<lambda>_.
             bnd (likes_query_pair e photoId userId) (\<lambda>existingLikes.
             case existingLikes of
               [] \<Rightarrow> ret (json_resp 404 (BError ''Like not found''))
             | like # _ \<Rightarrow>
                 bnd (like_item_delete e (l_id like) (l_photoId like)) (\<lambda>_.
                 bnd (getContainer e PHOTOS) (\<lambda>_.
                 bnd (photo_item_read e photoId photoId) (\<lambda>found.
                 bnd (case found of
                        None \<Rightarrow> ret None
                      | Some photo \<Rightarrow>
                          let photo' = photo\<lparr>p_likes := max 0 (or0 (p_likes photo) - 1)\<rparr>
                          in bnd (photo_items_upsert e photo') (\<lambda>_. ret (Some photo')))
                   (\<lambda>updated.
                 bnd (cacheDelete e (CACHE_KEYS_photoLikes photoId)) (\<lambda>_.
                 bnd (cacheDelete e (CACHE_KEYS_photo photoId)) (\<lambda>_.
                 ret (json_resp 200
                        (BLikeResult True
                           (case updated of None \<Rightarrow> 0 | Some p \<Rightarrow> or0 (p_likes p)))))))))))))))
       (json_resp 500 (BError ''Failed to unlike photo''))"

section \<open>Handlers: photos\<close>

definition getPhotos :: "env \<Rightarrow> request \<Rightarrow> world \<Rightarrow> response \<times> world" where
  "getPhotos e request =
     try_catch
       (let page = parseInt (query_or request ''page'' ''1'');
            limit = parseInt (query_or request ''limit'' ''20'');
            offset = js_times (js_minus page 1) limit;
            cacheKey = CACHE_KEYS_photos e page
        in bnd (cacheGet e cacheKey) (\<lambda>cached.
           if (case cached of None \<Rightarrow> False | Some v \<Rightarrow> truthy v)
           then ret (\<lparr>status = 200, jsonBody = map_option BValue cached\<rparr>)
           else
             bnd (getContainer e PHOTOS) (\<lambda>_.
             bnd (photos_query_page e offset limit) (\<lambda>photos.
             bnd (cacheSet e cacheKey (VPhotos photos) 60) (\<lambda>_.
             ret (json_resp 200 (BValue (VPhotos photos))))))))
       (json_resp 500 (BError ''Failed to fetch photos''))"

definition getPhoto :: "env \<Rightarrow> request \<Rightarrow> world \<Rightarrow> response \<times> world" where
  "getPhoto e request =
     try_catch
       (require_str (params request ''id'') (json_resp 400 (BError ''Photo ID required''))
          (\<lambda>ident.
             let cacheKey = CACHE_KEYS_photo ident
             in bnd (cacheGet e cacheKey) (\<lambda>cached.
                if (case cached of None \<Rightarrow> False | Some v \<Rightarrow> truthy v)
                then ret (\<lparr>status = 200, jsonBody = map_option BValue cached\<rparr>)
                else
                  bnd (getContainer e PHOTOS) (\<lambda>_.
                  bnd (photo_item_read e ident ident) (\<lambda>found.
                  case found of
                    None \<Rightarrow> ret (json_resp 404 (BError ''Photo not found''))
                  | Some photo \<Rightarrow>
                      bnd (cacheSet e cacheKey (VPhoto photo) 300) (\<lambda>_.
                      ret (json_resp 200 (BValue (VPhoto photo)))))))))
       (json_resp 500 (BError ''Failed to fetch photo''))"

text \<open>\<open>request.formData()\<close> rejects a body that is not form data.\<close>

definition formData :: "request \<Rightarrow> form io" where
  "formData request = (case req_body request of FormBody fd \<Rightarrow> ret fd | _ \<Rightarrow> throw TypeError)"

definition createPhoto :: "env \<Rightarrow> request \<Rightarrow> world \<Rightarrow> response \<times> world" where
  "createPhoto e request =
     try_catch
       (let userId = headers request ''x-user-id'';
            userName = headers request ''x-user-name'';
            userRole = headers request ''x-user-role''
        in if userRole \<noteq> Some ''creator''
           then ret (json_resp 403 (BError ''Only creators can upload photos''))
           else
             bnd (formData request) (\<lambda>fd.
             case fd_image fd of
               None \<Rightarrow> ret (json_resp 400 (BError ''Image and title are required''))
             | Some file \<Rightarrow>
                 require_str (fd_title fd) (json_resp 400 (BError ''Image and title are required''))
                   (\<lambda>title.
                      let photoId = uuidv4 e;
                          fileName = photoId @ ''-'' @ f_name file
                      in bnd (uploadPhoto e fileName (f_data file) (f_type file)) (\<lambda>imageUrl.
                         let photo =
                               \<lparr>p_id = photoId, p_creatorId = userId, p_creatorName = userName,
                                p_imageUrl = imageUrl, p_title = title,
                                p_caption = fd_caption fd,
                                p_location = (case fd_location fd of
                                                None \<Rightarrow> None
                                              | Some l \<Rightarrow> if l = [] then None else Some l),
                                p_people = (case fd_people fd of
                                              None \<Rightarrow> None
                                            | Some ppl \<Rightarrow>
                                                if ppl = [] then None
                                                else Some (map trim (split_on CHR '','' ppl))),
                                p_likes = 0, p_createdAt = now_iso e\<rparr>
                         in bnd (getContainer e PHOTOS) (\<lambda>_.
                            bnd (photo_items_create e photo) (\<lambda>_.
                            bnd (cacheInvalidatePattern e ''photos:*'') (\<lambda>_.
                            ret (json_resp 201 (BValue (VPhoto photo))))))))))
       (json_resp 500 (BError ''Failed to create photo''))"

definition deletePhotoHandler :: "env \<Rightarrow> request \<Rightarrow> world \<Rightarrow> response \<times> world" where
  "deletePhotoHandler e request =
     try_catch
       (let userId = headers request ''x-user-id'';
            userRole = headers request ''x-user-role''
        in require_str (params request ''id'') (json_resp 400 (BError ''Photo ID required''))
             (\<lambda>ident.
                bnd (getContainer e PHOTOS) (\<lambda>_.
                bnd (photo_item_read e ident ident) (\<lambda>found.
                case found of
                  None \<Rightarrow> ret (json_resp 404 (BError ''Photo not found''))
                | Some photo \<Rightarrow>
                    if p_creatorId photo \<noteq> userId \<and> userRole \<noteq> Some ''admin''
                    then ret (json_resp 403 (BError ''Not authorized to delete this photo''))
                    else
                      let fileName = last_segment (p_imageUrl photo)
                      in bnd (if fileName \<noteq> [] then deletePhoto e fileName else ret ()) (\<lambda>_.
                         bnd (photo_item_delete e ident ident) (\<lambda>_.
                         bnd (cacheDelete e (CACHE_KEYS_photo ident)) (\<lambda>_.
                         bnd (cacheInvalidatePattern e ''photos:*'') (\<lambda>_.
                         ret \<lparr>status = 204, jsonBody = None\<rparr>))))))))
       (json_resp 500 (BError ''Failed to delete photo''))"

section \<open>Handlers: comments\<close>

definition getComments :: "env \<Rightarrow> request \<Rightarrow> world \<Rightarrow> response \<times> world" where
  "getComments e request =
     try_catch
       (require_str (params request ''photoId'') (json_resp 400 (BError ''Photo ID required''))
          (\<lambda>photoId.
             let cacheKey = CACHE_KEYS_photoComments photoId
             in bnd (cacheGet e cacheKey) (\<lambda>cached.
                if (case cached of None \<Rightarrow> False | Some v \<Rightarrow> truthy v)
                then ret (\<lparr>status = 200, jsonBody = map_option BValue cached\<rparr>)
                else
                  bnd (getContainer e COMMENTS) (\<lambda>_.
                  bnd (comments_query_photo e photoId) (\<lambda>comments.
                  bnd (cacheSet e cacheKey (VComments comments) 60) (\<lambda>_.
                  ret (json_resp 200 (BValue (VComments comments)))))))))
       (json_resp 500 (BError ''Failed to fetch comments''))"

text \<open>\<open>request.json()\<close> rejects a body that is not JSON.\<close>

definition request_json :: "request \<Rightarrow> json_in io" where
  "request_json request = (case req_body request of JsonBody j \<Rightarrow> ret j | _ \<Rightarrow> throw SyntaxError)"

definition createComment :: "env \<Rightarrow> request \<Rightarrow> world \<Rightarrow> response \<times> world" where
  "createComment e request =
     try_catch
       (let userName = headers request ''x-user-name'';
            userAvatar = headers request ''x-user-avatar''
        in require_str (params request ''photoId'') (json_resp 400 (BError ''Photo ID required''))
             (\<lambda>photoId.
           require_str (headers request ''x-user-id'') (json_resp 401 (BError ''Not authenticated''))
             (\<lambda>userId.
                bnd (request_json request) (\<lambda>body.
                case body of
                  JNull \<Rightarrow> throw TypeError
                | JObj content \<Rightarrow>
                    (case content of
                       None \<Rightarrow> ret (json_resp 400 (BError ''Comment content required''))
                     | Some CFalsy \<Rightarrow> ret (json_resp 400 (BError ''Comment content required''))
                     | Some CTruthy \<Rightarrow> throw TypeError
                     | Some (CStr txt) \<Rightarrow>
                         if txt = [] \<or> length (trim txt) = 0
                         then ret (json_resp 400 (BError ''Comment content required''))
                         else
                           bnd (getContainer e PHOTOS) (\<lambda>_.
                           bnd (photo_item_read e photoId photoId) (\<lambda>found.
                           case found of
                             None \<Rightarrow> ret (json_resp 404 (BError ''Photo not found''))
                           | Some photo \<Rightarrow>
                               let comment =
                                     \<lparr>c_id = uuidv4 e, c_photoId = photoId, c_userId = userId,
                                      c_userName = (case userName of
                                                      None \<Rightarrow> ''Anonymous''
                                                    | Some n \<Rightarrow> if n = [] then ''Anonymous'' else n),
                                      c_userAvatar = (case userAvatar of
                                                        None \<Rightarrow> None
                                                      | Some a \<Rightarrow> if a = [] then None else Some a),
                                      c_content = trim txt, c_createdAt = now_iso e\<rparr>
                               in bnd (getContainer e COMMENTS) (\<lambda>_.
                                  bnd (comment_items_create e comment) (\<lambda>_.
                                  bnd (cacheDelete e (CACHE_KEYS_photoComments photoId)) (\<lambda>_.
                                  ret (json_resp 201 (BComment comment))))))))))))
       (json_resp 500 (BError ''Failed to create comment''))"

definition deleteComment :: "env \<Rightarrow> request \<Rightarrow> world \<Rightarrow> response \<times> world" where
  "deleteComment e request =
     try_catch
       (let userRole = headers request ''x-user-role''
        in require_str (params request ''id'') (json_resp 400 (BError ''Comment ID required''))
             (\<lambda>commentId.
           require_str (headers request ''x-user-id'') (json_resp 401 (BError ''Not authenticated''))
             (\<lambda>userId.
                bnd (getContainer e COMMENTS) (\<lambda>_.
                bnd (comments_query_id e commentId) (\<lambda>comments.
                case comments of
                  [] \<Rightarrow> ret (json_resp 404 (BError ''Comment not found''))
                | comment # _ \<Rightarrow>
                    if c_userId comment \<noteq> userId \<and> userRole \<noteq> Some ''admin''
                    then ret (json_resp 403 (BError ''Not authorized to delete this comment''))
                    else
                      bnd (comment_item_delete e commentId (c_photoId comment)) (\<lambda>_.
                      bnd (cacheDelete e (CACHE_KEYS_photoComments (c_photoId comment))) (\<lambda>_.
                      ret \<lparr>status = 204, jsonBody = None\<rparr>)))))))
       (json_resp 500 (BError ''Failed to delete comment''))"

section \<open>Dispatch, runs and the predicates of the properties\<close>

datatype mutation = LikePhoto | UnlikePhoto | CreateComment | DeleteComment | CreatePhoto | DeletePhoto

fun mutation_handler :: "mutation \<Rightarrow> env \<Rightarrow> request \<Rightarrow> world \<Rightarrow> response \<times> world" where
  "mutation_handler LikePhoto = likePhoto"
| "mutation_handler UnlikePhoto = unlikePhoto"
| "mutation_handler CreateComment = createComment"
| "mutation_handler DeleteComment = deleteComment"
| "mutation_handler CreatePhoto = createPhoto"
| "mutation_handler DeletePhoto = deletePhotoHandler"

text \<open>The status each handler returns at the end of its \<open>try\<close> block.\<close>

fun success_status :: "mutation \<Rightarrow> nat" where
  "success_status LikePhoto = 201"
| "success_status UnlikePhoto = 200"
| "success_status CreateComment = 201"
| "success_status DeleteComment = 204"
| "success_status CreatePhoto = 201"
| "success_status DeletePhoto = 204"


definition likes_nonneg :: "world \<Rightarrow> bool" where
  "likes_nonneg w = list_all (\<lambda>p. 0 \<le> p_likes p) (db_photos w)"

definition no_faults :: "env \<Rightarrow> env" where
  "no_faults e = e\<lparr>faulty := (\<lambda>op. False)\<rparr>"

fun is_invalidation :: "extop \<Rightarrow> bool" where
  "is_invalidation (CacheDel keys) = True"
| "is_invalidation (CacheKeys pattern) = True"
| "is_invalidation op = False"

fun is_store_op :: "extop \<Rightarrow> bool" where
  "is_store_op (GetContainer c) = True"
| "is_store_op (Query c) = True"
| "is_store_op (ItemRead c i pk) = True"
| "is_store_op (ItemsCreate c) = True"
| "is_store_op (ItemsUpsert c) = True"
| "is_store_op (ItemDelete c i pk) = True"
| "is_store_op op = False"

definition same_store :: "world \<Rightarrow> world \<Rightarrow> bool" where
  "same_store w w' =
     (db_photos w = db_photos w' \<and> db_likes w = db_likes w' \<and>
      db_comments w = db_comments w' \<and> blob_store w = blob_store w')"

text \<open>The calls an invocation added to the trace.\<close>

definition calls_made :: "world \<Rightarrow> world \<Rightarrow> extop list" where
  "calls_made w w' = drop (length (trace w)) (trace w')"

definition cached_value :: "world \<Rightarrow> string \<Rightarrow> cval option" where
  "cached_value w key = map_option fst (map_of (redis w) key)"

text \<open>The test \<open>if (cached)\<close> of the photo and comment readers.\<close>

definition is_hit :: "world \<Rightarrow> string \<Rightarrow> bool" where
  "is_hit w key = (case cached_value w key of None \<Rightarrow> False | Some v \<Rightarrow> truthy v)"

text \<open>A string that is empty or white space only; a \<open>content\<close> that is missing, falsy or such a string.\<close>

definition blank :: "string \<Rightarrow> bool" where
  "blank s = list_all is_ws s"

definition blank_content :: "content_val option \<Rightarrow> bool" where
  "blank_content c =
     (case c of
        None \<Rightarrow> True
      | Some CFalsy \<Rightarrow> True
      | Some CTruthy \<Rightarrow> False
      | Some (CStr s) \<Rightarrow> blank s)"

text \<open>A header or parameter that passes \<open>if (!v)\<close>.\<close>

definition present :: "string option \<Rightarrow> bool" where
  "present v = (case v of None \<Rightarrow> False | Some s \<Rightarrow> s \<noteq> [])"

text \<open>A computation keeps an invariant of the world, whether it returns or throws.\<close>

definition preserves :: "(world \<Rightarrow> bool) \<Rightarrow> 'a io \<Rightarrow> bool" where
  "preserves I m = (\<forall>w. I w \<longrightarrow> I (snd (m w)))"

text \<open>A call that is made only under a condition, as a piece of a trace.\<close>

definition opt_call :: "bool \<Rightarrow> extop \<Rightarrow> extop list" where
  "opt_call c op = (if c then [op] else [])"

subsection \<open>Sample data\<close>

definition sample_env :: env where
  "sample_env = \<lparr>faulty = (\<lambda>op. False), uuidv4 = ''id-1'',
                  now_iso = ''2024-05-01T10:00:00.000Z'', likes_pk = PkPhotoId,
                  blob_url = (\<lambda>n. ''https://blobs/photos/'' @ n),
                  big_string = (\<lambda>v. ''Infinity''),
                  big_query = (\<lambda>docs. Inl BadRequest)\<rparr>"

definition sample_photo :: photo where
  "sample_photo = \<lparr>p_id = ''p1'', p_creatorId = Some ''u1'', p_creatorName = Some ''Ann'',
                    p_imageUrl = ''https://blobs/photos/p1-a.png'', p_title = ''Dawn'',
                    p_caption = None, p_location = None, p_people = None, p_likes = 1,
                    p_createdAt = ''2024-04-30T08:00:00.000Z''\<rparr>"

definition sample_like :: like where
  "sample_like = \<lparr>l_id = ''k1'', l_photoId = ''p1'', l_userId = ''u2'',
                   l_createdAt = ''2024-04-30T09:00:00.000Z''\<rparr>"

definition sample_comment :: "string \<Rightarrow> string \<Rightarrow> string \<Rightarrow> comment" where
  "sample_comment ident uid stamp =
     \<lparr>c_id = ident, c_photoId = ''p1'', c_userId = uid, c_userName = ''Bob'',
      c_userAvatar = None, c_content = ''nice'', c_createdAt = stamp\<rparr>"

definition sample_world :: world where
  "sample_world = \<lparr>db_photos = [sample_photo], db_likes = [sample_like],
                    db_comments = [sample_comment ''c1'' ''u2'' ''2024-04-30T09:30:00.000Z'',
                                   sample_comment ''c2'' ''u3'' ''2024-04-30T11:00:00.000Z''],
                    blob_store = [(''p1-a.png'', ''bytes'', ''image/png'')],
                    redis = [], trace = []\<rparr>"

definition mk_request :: "(string \<times> string) list \<Rightarrow> (string \<times> string) list \<Rightarrow> req_body \<Rightarrow> request" where
  "mk_request ps hs b = \<lparr>params = map_of ps, headers = map_of hs, query = Map.empty, req_body = b\<rparr>"

section \<open>Properties of the client\<close>

lemma shift_of_small: "a < 2 ^ 53 \<Longrightarrow> shift_of a = 0"
  by (simp add: shift_of.simps)

lemma shift_of_big: "\<not> a < 2 ^ 53 \<Longrightarrow> shift_of a = Suc (shift_of (a div 2))"
  by (subst shift_of.simps) simp

lemma round_nat_exact: "a \<le> 2 ^ 53 \<Longrightarrow> round_nat a = a"
proof (cases "a < 2 ^ 53")
  case True
  then show ?thesis by (simp add: round_nat_def shift_of_small)
next
  case False
  assume "a \<le> 2 ^ 53"
  with False have a: "a = 2 ^ 53" by simp
  have "shift_of (2 ^ 53) = Suc 0"
    by (simp add: shift_of_big shift_of_small)
  then show ?thesis unfolding a
    by (simp add: round_nat_def)
qed

lemma to_double_exact: "- (2 ^ 53) \<le> n \<Longrightarrow> n \<le> 2 ^ 53 \<Longrightarrow> to_double n = n"
  by (simp add: to_double_def round_nat_exact nat_le_iff)

lemma to_double_succ_safe: "safe_integer n \<Longrightarrow> to_double (n + 1) = n + 1"
  by (rule to_double_exact) (simp_all add: safe_integer_def)

lemma filter_neq_append_absent:
  "uid \<notin> set xs \<Longrightarrow> filter (\<lambda>i. i \<noteq> uid) (xs @ [uid]) = xs"
  by (induction xs) auto

lemma like_revert_optimistic_nth:
  assumes "i < length photos" and "uid \<notin> set (cp_likedBy (photos ! i))"
    and "safe_integer (cp_likes (photos ! i))"
  shows "like_revert uid photoId (like_optimistic uid photoId photos) ! i = photos ! i"
proof -
  have f: "filter (\<lambda>i. i \<noteq> uid) (cp_likedBy (photos ! i)) = cp_likedBy (photos ! i)"
    using assms(2) by (auto simp add: filter_id_conv)
  have u: "to_double (cp_likes (photos ! i) + 1) = cp_likes (photos ! i) + 1"
    using assms(3) by (rule to_double_succ_safe)
  have d: "to_double (cp_likes (photos ! i)) = cp_likes (photos ! i)"
    using assms(3) by (intro to_double_exact) (simp_all add: safe_integer_def)
  show ?thesis
    using assms(1,2) f u d by (simp add: like_revert_def like_optimistic_def)
qed

text \<open>
  Claim C3, as the code has it. Whenever the photo at some position of the client's list
  has id \<open>P\<close>, a like count \<open>N\<close> that is an integer below \<open>2^53\<close> in magnitude, and does not
  list user \<open>U\<close> in \<open>likedBy\<close>, the action \<open>likePhoto(P)\<close> run as \<open>U\<close> leaves, right after its
  synchronous part, that photo with like count \<open>N + 1\<close> and \<open>U\<close> appended to \<open>likedBy\<close>;
  and when the network call fails, the state after the rollback holds that photo exactly
  as it was: like count \<open>N\<close>, \<open>U\<close> not in \<open>likedBy\<close>, every other field untouched.
\<close>

theorem client_like_optimistic_rollback:
  assumes "i < length photos"
    and "cp_id (photos ! i) = P"
    and "cp_likes (photos ! i) = N"
    and "safe_integer N"
    and "u_id u \<notin> set (cp_likedBy (photos ! i))"
    and "\<not> sync_succeeds e"
    and "client_likePhoto (Some u) e P photos = (applied, settled)"
  shows "cp_likes (applied ! i) = N + 1
       \<and> u_id u \<in> set (cp_likedBy (applied ! i))
       \<and> applied ! i = (photos ! i)\<lparr>cp_likes := N + 1, cp_likedBy := cp_likedBy (photos ! i) @ [u_id u]\<rparr>
       \<and> settled ! i = photos ! i
       \<and> cp_likes (settled ! i) = N
       \<and> u_id u \<notin> set (cp_likedBy (settled ! i))"
proof -
  have a: "applied = like_optimistic (u_id u) P photos"
    and s: "settled = like_revert (u_id u) P applied"
    using assms(6,7) by (auto simp add: client_likePhoto_def Let_def)
  have n: "to_double (N + 1) = N + 1"
    using assms(4) by (rule to_double_succ_safe)
  have 3: "applied ! i = (photos ! i)\<lparr>cp_likes := N + 1, cp_likedBy := cp_likedBy (photos ! i) @ [u_id u]\<rparr>"
    using assms(1,2,3,5) n by (simp add: a like_optimistic_def)
  have 4: "settled ! i = photos ! i"
    unfolding s a using assms(1,5) assms(4) [folded assms(3)] by (rule like_revert_optimistic_nth)
  show ?thesis
    using 3 4 assms(3,5) by simp
qed

theorem client_like_optimistic_rollback_witness:
  "client_likePhoto (Some \<lparr>u_id = ''u1'', u_role = ''consumer''\<rparr>)
       \<lparr>token_fails = False, azure_configured = True, http_ok = False\<rparr> ''p1''
       [\<lparr>cp_id = ''p0'', cp_likes = 7, cp_likedBy = [''u1'']\<rparr>,
        \<lparr>cp_id = ''p1'', cp_likes = 2, cp_likedBy = [''u2'', ''u3'']\<rparr>]
     = ([\<lparr>cp_id = ''p0'', cp_likes = 7, cp_likedBy = [''u1'']\<rparr>,
         \<lparr>cp_id = ''p1'', cp_likes = 3, cp_likedBy = [''u2'', ''u3'', ''u1'']\<rparr>],
        [\<lparr>cp_id = ''p0'', cp_likes = 7, cp_likedBy = [''u1'']\<rparr>,
         \<lparr>cp_id = ''p1'', cp_likes = 2, cp_likedBy = [''u2'', ''u3'']\<rparr>])
   \<and> safe_integer 2
   \<and> cp_likes ([\<lparr>cp_id = ''p0'', cp_likes = 7, cp_likedBy = [''u1'']\<rparr>,
         \<lparr>cp_id = ''p1'', cp_likes = 3, cp_likedBy = [''u2'', ''u3'', ''u1'']\<rparr>] ! 1) = 2 + 1"
proof -
  let ?u = "\<lparr>u_id = ''u1'', u_role = ''consumer''\<rparr>"
  let ?e = "\<lparr>token_fails = False, azure_configured = True, http_ok = False\<rparr>"
  let ?ps = "[\<lparr>cp_id = ''p0'', cp_likes = 7, cp_likedBy = [''u1'']\<rparr>,
              \<lparr>cp_id = ''p1'', cp_likes = 2, cp_likedBy = [''u2'', ''u3'']\<rparr>]"
  let ?a = "[\<lparr>cp_id = ''p0'', cp_likes = 7, cp_likedBy = [''u1'']\<rparr>,
             \<lparr>cp_id = ''p1'', cp_likes = 3, cp_likedBy = [''u2'', ''u3'', ''u1'']\<rparr>]"
  have run: "client_likePhoto (Some ?u) ?e ''p1'' ?ps = (?a, ?ps)"
    by (simp add: client_likePhoto_def sync_succeeds_def photoService_likePhoto_def
        like_optimistic_def like_revert_def to_double_def round_nat_def shift_of_small)
  have nofail: "\<not> sync_succeeds ?e"
    by (simp add: sync_succeeds_def photoService_likePhoto_def)
  have safe: "safe_integer 2"
    by (simp add: safe_integer_def)
  have "cp_likes (?a ! 1) = 2 + 1"
    using client_like_optimistic_rollback [of 1 ?ps "''p1''" 2 ?u ?e ?a ?ps] nofail run safe
    by simp
  with run safe show ?thesis by simp
qed

text \<open>
  Claim C3 as the specification words it, for every like count, fails where the count has
  left the range in which every integer is a double. At a like count of \<open>2^53\<close>
  (9007199254740992) the sum \<open>photo.likes + 1\<close> rounds back to \<open>2^53\<close>, so the optimistic
  update shows no increment, and the rollback's \<open>photo.likes - 1\<close> then gives
  \<open>2^53 - 1\<close>: the failed like has left the count one lower than it was.
\<close>

theorem client_like_rounding_counterexample:
  "client_likePhoto (Some \<lparr>u_id = ''u1'', u_role = ''consumer''\<rparr>)
       \<lparr>token_fails = False, azure_configured = True, http_ok = False\<rparr> ''p1''
       [\<lparr>cp_id = ''p1'', cp_likes = 9007199254740992, cp_likedBy = [''u2'']\<rparr>]
     = ([\<lparr>cp_id = ''p1'', cp_likes = 9007199254740992, cp_likedBy = [''u2'', ''u1'']\<rparr>],
        [\<lparr>cp_id = ''p1'', cp_likes = 9007199254740991, cp_likedBy = [''u2'']\<rparr>])"
  by (simp add: client_likePhoto_def sync_succeeds_def photoService_likePhoto_def
      like_optimistic_def like_revert_def to_double_def round_nat_def shift_of_small
      shift_of_big)

section \<open>Properties of the handlers\<close>

lemmas io_defs = ret_def throw_def bnd_def try_catch_def call_def require_str_def

lemmas store_defs = getContainer_def photo_item_read_def photo_items_create_def
  photo_items_upsert_def photo_item_delete_def photos_query_page_def likes_query_pair_def
  likes_query_count_def like_items_create_def like_item_delete_def comments_query_photo_def
  comments_query_id_def comment_items_create_def comment_item_delete_def

lemmas cache_defs = cacheGet_def cacheSet_def redis_del_def cacheDelete_def redis_keys_def
  cacheInvalidatePattern_def

lemmas blob_defs = uploadPhoto_def deletePhoto_def

lemmas key_defs = CACHE_KEYS_photo_def CACHE_KEYS_photos_def CACHE_KEYS_photoLikes_def
  CACHE_KEYS_photoComments_def

lemmas sample_defs = sample_env_def sample_photo_def sample_like_def sample_comment_def
  sample_world_def mk_request_def

lemma find_p_id_Some:
  "P \<in> set (map p_id ps) \<Longrightarrow> \<exists>p. find (\<lambda>p. p_id p = P) ps = Some p"
  by (induction ps) auto

lemma find_Some_props: "find P xs = Some x \<Longrightarrow> P x \<and> x \<in> set xs"
  by (induction xs) (auto split: if_splits)

subsection \<open>What a call that returned must have done\<close>

text \<open>
  A computation that returns took one path through its code; these equations read that
  path off, step by step, so that the branches that throw need not be explored.
\<close>

lemma ret_Inr: "ret x w = (Inr r, w') \<longleftrightarrow> r = x \<and> w' = w"
  by (auto simp: ret_def)

lemma throw_Inr: "throw ex w = (Inr r, w') \<longleftrightarrow> False"
  by (simp add: throw_def)

lemma bnd_Inr: "bnd m f w = (Inr r, w') \<longleftrightarrow> (\<exists>x w1. m w = (Inr x, w1) \<and> f x w1 = (Inr r, w'))"
  by (auto simp: bnd_def split: prod.splits sum.splits)

lemma call_Inr:
  "call e op m w = (Inr r, w') \<longleftrightarrow> \<not> faulty e op \<and> m (w\<lparr>trace := trace w @ [op]\<rparr>) = (Inr r, w')"
  by (simp add: call_def Let_def)

lemma require_str_Inr:
  "require_str v r0 k w = (Inr r, w') \<longleftrightarrow>
     (\<not> present v \<and> r = r0 \<and> w' = w) \<or> (\<exists>s. v = Some s \<and> s \<noteq> [] \<and> k s w = (Inr r, w'))"
  by (auto simp: require_str_def present_def ret_def split: option.splits)

lemma try_catch_ok:
  "status r500 = 500 \<Longrightarrow> status r \<noteq> 500 \<Longrightarrow>
     try_catch m r500 w = (r, w') \<longleftrightarrow> m w = (Inr r, w')"
  by (auto simp: try_catch_def split: prod.splits sum.splits)

lemma if_Inr:
  "(if c then a else b) w = (Inr r, w') \<longleftrightarrow> (c \<and> a w = (Inr r, w')) \<or> (\<not> c \<and> b w = (Inr r, w'))"
  by simp

lemma case_option_Inr:
  "(case x of None \<Rightarrow> a | Some y \<Rightarrow> b y) w = (Inr r, w') \<longleftrightarrow>
     (x = None \<and> a w = (Inr r, w')) \<or> (\<exists>y. x = Some y \<and> b y w = (Inr r, w'))"
  by (cases x) simp_all

lemma case_list_Inr:
  "(case xs of [] \<Rightarrow> a | y # ys \<Rightarrow> b y ys) w = (Inr r, w') \<longleftrightarrow>
     (xs = [] \<and> a w = (Inr r, w')) \<or> (\<exists>y ys. xs = y # ys \<and> b y ys w = (Inr r, w'))"
  by (cases xs) simp_all

lemma case_json_Inr:
  "(case j of JNull \<Rightarrow> a | JObj c \<Rightarrow> b c) w = (Inr r, w') \<longleftrightarrow>
     (j = JNull \<and> a w = (Inr r, w')) \<or> (\<exists>c. j = JObj c \<and> b c w = (Inr r, w'))"
  by (cases j) simp_all

lemma case_content_Inr:
  "(case v of CStr s \<Rightarrow> a s | CFalsy \<Rightarrow> b | CTruthy \<Rightarrow> c) w = (Inr r, w') \<longleftrightarrow>
     (\<exists>s. v = CStr s \<and> a s w = (Inr r, w')) \<or> (v = CFalsy \<and> b w = (Inr r, w'))
     \<or> (v = CTruthy \<and> c w = (Inr r, w'))"
  by (cases v) simp_all

lemma getContainer_Inr:
  "getContainer e c w = (Inr x, w') \<longleftrightarrow>
     \<not> faulty e (GetContainer c) \<and> w' = w\<lparr>trace := trace w @ [GetContainer c]\<rparr>"
  by (auto simp: getContainer_def call_Inr ret_Inr)

lemma photo_item_read_Inr:
  "photo_item_read e i pk w = (Inr x, w') \<longleftrightarrow>
     \<not> faulty e (ItemRead PHOTOS i pk) \<and> x = find (\<lambda>p. p_id p = i \<and> p_id p = pk) (db_photos w)
     \<and> w' = w\<lparr>trace := trace w @ [ItemRead PHOTOS i pk]\<rparr>"
  by (auto simp: photo_item_read_def call_Inr)

lemma photo_items_create_Inr:
  "photo_items_create e p w = (Inr x, w') \<longleftrightarrow>
     \<not> faulty e (ItemsCreate PHOTOS) \<and> p_id p \<notin> set (map p_id (db_photos w))
     \<and> w' = w\<lparr>trace := trace w @ [ItemsCreate PHOTOS], db_photos := db_photos w @ [p]\<rparr>"
  by (auto simp: photo_items_create_def call_Inr)

lemma photo_items_upsert_Inr:
  "photo_items_upsert e p w = (Inr x, w') \<longleftrightarrow>
     \<not> faulty e (ItemsUpsert PHOTOS)
     \<and> w' = w\<lparr>trace := trace w @ [ItemsUpsert PHOTOS],
               db_photos := (if p_id p \<in> set (map p_id (db_photos w))
                   then map (\<lambda>q. if p_id q = p_id p then p else q) (db_photos w)
                   else db_photos w @ [p])\<rparr>"
  by (auto simp: photo_items_upsert_def call_Inr)

lemma photo_item_delete_Inr:
  "photo_item_delete e i pk w = (Inr x, w') \<longleftrightarrow>
     \<not> faulty e (ItemDelete PHOTOS i pk)
     \<and> filter (\<lambda>p. p_id p = i \<and> p_id p = pk) (db_photos w) \<noteq> []
     \<and> w' = w\<lparr>trace := trace w @ [ItemDelete PHOTOS i pk],
               db_photos := filter (\<lambda>p. \<not> (p_id p = i \<and> p_id p = pk)) (db_photos w)\<rparr>"
  by (auto simp: photo_item_delete_def call_Inr)

lemma likes_query_pair_Inr:
  "likes_query_pair e P U w = (Inr x, w') \<longleftrightarrow>
     \<not> faulty e (Query LIKES) \<and> x = filter (\<lambda>l. l_photoId l = P \<and> l_userId l = U) (db_likes w)
     \<and> w' = w\<lparr>trace := trace w @ [Query LIKES]\<rparr>"
  by (auto simp: likes_query_pair_def call_Inr)

lemma like_items_create_Inr:
  "like_items_create e l w = (Inr x, w') \<longleftrightarrow>
     \<not> faulty e (ItemsCreate LIKES)
     \<and> filter (\<lambda>k. l_id k = l_id l \<and> like_pk e k = like_pk e l) (db_likes w) = []
     \<and> w' = w\<lparr>trace := trace w @ [ItemsCreate LIKES], db_likes := db_likes w @ [l]\<rparr>"
  by (auto simp: like_items_create_def call_Inr)

lemma like_item_delete_Inr:
  "like_item_delete e i pk w = (Inr x, w') \<longleftrightarrow>
     \<not> faulty e (ItemDelete LIKES i pk)
     \<and> filter (\<lambda>l. l_id l = i \<and> like_pk e l = pk) (db_likes w) \<noteq> []
     \<and> w' = w\<lparr>trace := trace w @ [ItemDelete LIKES i pk],
               db_likes := filter (\<lambda>l. \<not> (l_id l = i \<and> like_pk e l = pk)) (db_likes w)\<rparr>"
  by (auto simp: like_item_delete_def call_Inr)

lemma comments_query_id_Inr:
  "comments_query_id e i w = (Inr x, w') \<longleftrightarrow>
     \<not> faulty e (Query COMMENTS) \<and> x = filter (\<lambda>c. c_id c = i) (db_comments w)
     \<and> w' = w\<lparr>trace := trace w @ [Query COMMENTS]\<rparr>"
  by (auto simp: comments_query_id_def call_Inr)

lemma comment_items_create_Inr:
  "comment_items_create e c w = (Inr x, w') \<longleftrightarrow>
     \<not> faulty e (ItemsCreate COMMENTS)
     \<and> filter (\<lambda>k. c_id k = c_id c \<and> c_photoId k = c_photoId c) (db_comments w) = []
     \<and> w' = w\<lparr>trace := trace w @ [ItemsCreate COMMENTS], db_comments := db_comments w @ [c]\<rparr>"
  by (auto simp: comment_items_create_def call_Inr)

lemma comment_item_delete_Inr:
  "comment_item_delete e i pk w = (Inr x, w') \<longleftrightarrow>
     \<not> faulty e (ItemDelete COMMENTS i pk)
     \<and> filter (\<lambda>c. c_id c = i \<and> c_photoId c = pk) (db_comments w) \<noteq> []
     \<and> w' = w\<lparr>trace := trace w @ [ItemDelete COMMENTS i pk],
               db_comments := filter (\<lambda>c. \<not> (c_id c = i \<and> c_photoId c = pk)) (db_comments w)\<rparr>"
  by (auto simp: comment_item_delete_def call_Inr)

lemma redis_del_Inr:
  "redis_del e keys w = (Inr x, w') \<longleftrightarrow>
     \<not> faulty e (CacheDel keys)
     \<and> w' = w\<lparr>trace := trace w @ [CacheDel keys],
               redis := filter (\<lambda>en. fst en \<notin> set keys) (redis w)\<rparr>"
  by (auto simp: redis_del_def call_Inr)

lemma cacheDelete_Inr:
  "cacheDelete e key w = (Inr x, w') \<longleftrightarrow>
     \<not> faulty e (CacheDel [key])
     \<and> w' = w\<lparr>trace := trace w @ [CacheDel [key]],
               redis := filter (\<lambda>en. fst en \<notin> set [key]) (redis w)\<rparr>"
  by (simp add: cacheDelete_def redis_del_Inr)

lemma redis_keys_Inr:
  "redis_keys e pat w = (Inr x, w') \<longleftrightarrow>
     \<not> faulty e (CacheKeys pat) \<and> x = filter (glob_match pat) (map fst (redis w))
     \<and> w' = w\<lparr>trace := trace w @ [CacheKeys pat]\<rparr>"
  by (auto simp: redis_keys_def call_Inr)

lemma cacheInvalidatePattern_Inr:
  "cacheInvalidatePattern e pat w = (Inr x, w') \<longleftrightarrow>
     \<not> faulty e (CacheKeys pat) \<and>
     (filter (glob_match pat) (map fst (redis w)) = []
        \<and> w' = w\<lparr>trace := trace w @ [CacheKeys pat]\<rparr>
      \<or> filter (glob_match pat) (map fst (redis w)) \<noteq> []
        \<and> \<not> faulty e (CacheDel (filter (glob_match pat) (map fst (redis w))))
        \<and> w' = w\<lparr>trace := trace w @ [CacheKeys pat,
                              CacheDel (filter (glob_match pat) (map fst (redis w)))],
                  redis := filter (\<lambda>en. fst en \<notin> set (filter (glob_match pat) (map fst (redis w))))
                             (redis w)\<rparr>)"
  by (auto simp: cacheInvalidatePattern_def bnd_Inr redis_keys_Inr redis_del_Inr ret_Inr)

lemma uploadPhoto_Inr:
  "uploadPhoto e fileName data ct w = (Inr x, w') \<longleftrightarrow>
     \<not> faulty e (BlobUpload fileName) \<and> x = blob_url e fileName
     \<and> w' = w\<lparr>trace := trace w @ [BlobUpload fileName],
               blob_store := (fileName, data, ct) # filter (\<lambda>b. fst b \<noteq> fileName) (blob_store w)\<rparr>"
  by (auto simp: uploadPhoto_def call_Inr)

lemma deletePhoto_Inr:
  "deletePhoto e fileName w = (Inr x, w') \<longleftrightarrow>
     \<not> faulty e (BlobDeleteIfExists fileName)
     \<and> w' = w\<lparr>trace := trace w @ [BlobDeleteIfExists fileName],
               blob_store := filter (\<lambda>b. fst b \<noteq> fileName) (blob_store w)\<rparr>"
  by (auto simp: deletePhoto_def call_Inr)

lemma formData_Inr:
  "formData request w = (Inr fd, w') \<longleftrightarrow> req_body request = FormBody fd \<and> w' = w"
  by (auto simp: formData_def ret_def throw_def split: req_body.splits)

lemma request_json_Inr:
  "request_json request w = (Inr j, w') \<longleftrightarrow> req_body request = JsonBody j \<and> w' = w"
  by (auto simp: request_json_def ret_def throw_def split: req_body.splits)

lemmas inr_simps = ret_Inr throw_Inr bnd_Inr require_str_Inr if_Inr case_option_Inr
  case_list_Inr case_json_Inr case_content_Inr getContainer_Inr photo_item_read_Inr photo_items_create_Inr photo_items_upsert_Inr
  photo_item_delete_Inr likes_query_pair_Inr like_items_create_Inr like_item_delete_Inr
  comments_query_id_Inr comment_items_create_Inr comment_item_delete_Inr cacheDelete_Inr
  cacheInvalidatePattern_Inr uploadPhoto_Inr deletePhoto_Inr formData_Inr request_json_Inr

lemma find_p_id_props:
  "find (\<lambda>p. p_id p = P) ps = Some p \<Longrightarrow> p_id p = P \<and> P \<in> p_id ` set ps"
  by (induction ps) (auto split: if_splits)

subsection \<open>The successful run of each mutation\<close>

lemma likePhoto_201:
  assumes "likePhoto e request w = (r, w')" and "status r = 201"
  shows "\<exists>P U photo. params request ''photoId'' = Some P \<and> P \<noteq> []
      \<and> headers request ''x-user-id'' = Some U \<and> U \<noteq> []
      \<and> find (\<lambda>p. p_id p = P) (db_photos w) = Some photo
      \<and> filter (\<lambda>l. l_photoId l = P \<and> l_userId l = U) (db_likes w) = []
      \<and> filter (\<lambda>k. l_id k = uuidv4 e \<and> like_pk e k
            = like_pk e \<lparr>l_id = uuidv4 e, l_photoId = P, l_userId = U, l_createdAt = now_iso e\<rparr>)
           (db_likes w) = []
      \<and> r = json_resp 201 (BLikeResult True (p_likes photo + 1))
      \<and> w' = w\<lparr>db_likes := db_likes w @ [\<lparr>l_id = uuidv4 e, l_photoId = P, l_userId = U,
                                           l_createdAt = now_iso e\<rparr>],
                db_photos := map (\<lambda>q. if p_id q = P then photo\<lparr>p_likes := p_likes photo + 1\<rparr>
                                       else q) (db_photos w),
                trace := trace w @ [GetContainer PHOTOS, ItemRead PHOTOS P P, GetContainer LIKES,
                   Query LIKES, ItemsCreate LIKES, ItemsUpsert PHOTOS,
                   CacheDel [CACHE_KEYS_photoLikes P], CacheDel [CACHE_KEYS_photo P]],
                redis := filter (\<lambda>x. fst x \<noteq> CACHE_KEYS_photoLikes P \<and> fst x \<noteq> CACHE_KEYS_photo P)
                           (redis w)\<rparr>"
  using assms
  unfolding likePhoto_def
  apply (subst (asm) try_catch_ok)
    apply (simp add: json_resp_def)
   apply simp
  apply (clarsimp simp add: inr_simps Let_def json_resp_def or0_def)
  apply (elim disjE exE conjE)
     apply simp_all
  apply (frule find_p_id_props)
  apply simp
  done

lemma unlikePhoto_200:
  assumes "unlikePhoto e request w = (r, w')" and "status r = 200"
  shows "\<exists>P U like rest. params request ''photoId'' = Some P \<and> P \<noteq> []
      \<and> headers request ''x-user-id'' = Some U \<and> U \<noteq> []
      \<and> filter (\<lambda>l. l_photoId l = P \<and> l_userId l = U) (db_likes w) = like # rest
      \<and> filter (\<lambda>l. l_id l = l_id like \<and> like_pk e l = l_photoId like) (db_likes w) \<noteq> []
      \<and> db_likes w' = filter (\<lambda>l. \<not> (l_id l = l_id like \<and> like_pk e l = l_photoId like)) (db_likes w)
      \<and> db_comments w' = db_comments w \<and> blob_store w' = blob_store w
      \<and> (case find (\<lambda>p. p_id p = P) (db_photos w) of
            None \<Rightarrow> db_photos w' = db_photos w
              \<and> trace w' = trace w @ [GetContainer LIKES, Query LIKES,
                   ItemDelete LIKES (l_id like) (l_photoId like), GetContainer PHOTOS,
                   ItemRead PHOTOS P P,
                   CacheDel [CACHE_KEYS_photoLikes P], CacheDel [CACHE_KEYS_photo P]]
          | Some photo \<Rightarrow>
              db_photos w' = map (\<lambda>q. if p_id q = P
                                        then photo\<lparr>p_likes := max 0 (p_likes photo - 1)\<rparr> else q)
                                 (db_photos w)
              \<and> trace w' = trace w @ [GetContainer LIKES, Query LIKES,
                   ItemDelete LIKES (l_id like) (l_photoId like), GetContainer PHOTOS,
                   ItemRead PHOTOS P P, ItemsUpsert PHOTOS,
                   CacheDel [CACHE_KEYS_photoLikes P], CacheDel [CACHE_KEYS_photo P]])"
  using assms
  unfolding unlikePhoto_def
  apply (subst (asm) try_catch_ok)
    apply (simp add: json_resp_def)
   apply simp
  apply (clarsimp simp add: inr_simps Let_def json_resp_def or0_def)
  apply (elim disjE exE conjE)
     apply simp_all
  apply (frule find_p_id_props)
  apply simp
  done

lemma createComment_201:
  assumes "createComment e request w = (r, w')" and "status r = 201"
  shows "\<exists>P U s photo. params request ''photoId'' = Some P \<and> P \<noteq> []
      \<and> headers request ''x-user-id'' = Some U \<and> U \<noteq> []
      \<and> req_body request = JsonBody (JObj (Some (CStr s))) \<and> s \<noteq> [] \<and> trim s \<noteq> []
      \<and> find (\<lambda>p. p_id p = P) (db_photos w) = Some photo
      \<and> filter (\<lambda>k. c_id k = uuidv4 e \<and> c_photoId k = P) (db_comments w) = []
      \<and> (\<exists>c. c_id c = uuidv4 e \<and> c_photoId c = P \<and> c_userId c = U \<and> c_content c = trim s
            \<and> c_createdAt c = now_iso e \<and> r = json_resp 201 (BComment c)
            \<and> w' = w\<lparr>db_comments := db_comments w @ [c],
                      trace := trace w @ [GetContainer PHOTOS, ItemRead PHOTOS P P,
                        GetContainer COMMENTS, ItemsCreate COMMENTS,
                        CacheDel [CACHE_KEYS_photoComments P]],
                      redis := filter (\<lambda>x. fst x \<noteq> CACHE_KEYS_photoComments P) (redis w)\<rparr>)"
  using assms
  unfolding createComment_def
  apply (subst (asm) try_catch_ok)
    apply (simp add: json_resp_def)
   apply simp
  apply (clarsimp simp add: inr_simps Let_def json_resp_def)
  apply (elim disjE exE conjE)
     apply simp_all
  done

lemma deleteComment_204:
  assumes "deleteComment e request w = (r, w')" and "status r = 204"
  shows "\<exists>cid U c rest. params request ''id'' = Some cid \<and> cid \<noteq> []
      \<and> headers request ''x-user-id'' = Some U \<and> U \<noteq> []
      \<and> filter (\<lambda>c. c_id c = cid) (db_comments w) = c # rest
      \<and> (c_userId c = U \<or> headers request ''x-user-role'' = Some ''admin'')
      \<and> filter (\<lambda>k. c_id k = cid \<and> c_photoId k = c_photoId c) (db_comments w) \<noteq> []
      \<and> r = \<lparr>status = 204, jsonBody = None\<rparr>
      \<and> w' = w\<lparr>db_comments := filter (\<lambda>k. \<not> (c_id k = cid \<and> c_photoId k = c_photoId c))
                                     (db_comments w),
                trace := trace w @ [GetContainer COMMENTS, Query COMMENTS,
                   ItemDelete COMMENTS cid (c_photoId c),
                   CacheDel [CACHE_KEYS_photoComments (c_photoId c)]],
                redis := filter (\<lambda>x. fst x \<noteq> CACHE_KEYS_photoComments (c_photoId c)) (redis w)\<rparr>"
  using assms
  unfolding deleteComment_def
  apply (subst (asm) try_catch_ok)
    apply (simp add: json_resp_def)
   apply simp
  apply (clarsimp simp add: inr_simps Let_def json_resp_def)
  apply (elim disjE exE conjE)
     apply simp_all
  done

lemma opt_call_simps: "c \<Longrightarrow> opt_call c op = [op]" "\<not> c \<Longrightarrow> opt_call c op = []"
  by (simp_all add: opt_call_def)

lemma createPhoto_201:
  assumes "createPhoto e request w = (r, w')" and "status r = 201"
  shows "\<exists>fd. req_body request = FormBody fd \<and> (\<exists>file. fd_image fd = Some file
      \<and> (\<exists>title. fd_title fd = Some title \<and> title \<noteq> []
      \<and> headers request ''x-user-role'' = Some ''creator''
      \<and> uuidv4 e \<notin> set (map p_id (db_photos w))
      \<and> (\<exists>photo. r = json_resp 201 (BValue (VPhoto photo))
          \<and> p_id photo = uuidv4 e \<and> p_likes photo = 0
          \<and> p_creatorId photo = headers request ''x-user-id''
          \<and> db_photos w' = db_photos w @ [photo])
      \<and> db_likes w' = db_likes w \<and> db_comments w' = db_comments w
      \<and> blob_store w' = (uuidv4 e @ ''-'' @ f_name file, f_data file, f_type file)
            # filter (\<lambda>b. fst b \<noteq> uuidv4 e @ ''-'' @ f_name file) (blob_store w)
      \<and> trace w' = trace w @ [BlobUpload (uuidv4 e @ ''-'' @ f_name file), GetContainer PHOTOS,
            ItemsCreate PHOTOS, CacheKeys ''photos:*'']
            @ opt_call (filter (glob_match ''photos:*'') (map fst (redis w)) \<noteq> [])
                (CacheDel (filter (glob_match ''photos:*'') (map fst (redis w))))))"
  using assms
  unfolding createPhoto_def
  apply (subst (asm) try_catch_ok)
    apply (simp add: json_resp_def)
   apply simp
  apply (clarsimp simp add: inr_simps Let_def json_resp_def)
  apply (elim disjE exE conjE)
     apply (simp_all add: opt_call_simps)
  done

lemma deletePhotoHandler_204:
  assumes "deletePhotoHandler e request w = (r, w')" and "status r = 204"
  shows "\<exists>pid. params request ''id'' = Some pid \<and> pid \<noteq> []
      \<and> (\<exists>photo. find (\<lambda>p. p_id p = pid) (db_photos w) = Some photo
      \<and> (p_creatorId photo = headers request ''x-user-id''
           \<or> headers request ''x-user-role'' = Some ''admin'')
      \<and> r = \<lparr>status = 204, jsonBody = None\<rparr>
      \<and> db_photos w' = filter (\<lambda>q. p_id q \<noteq> pid) (db_photos w)
      \<and> db_likes w' = db_likes w \<and> db_comments w' = db_comments w
      \<and> blob_store w' = filter (\<lambda>b. last_segment (p_imageUrl photo) = []
                                    \<or> fst b \<noteq> last_segment (p_imageUrl photo)) (blob_store w)
      \<and> trace w' = trace w @ [GetContainer PHOTOS, ItemRead PHOTOS pid pid]
            @ opt_call (last_segment (p_imageUrl photo) \<noteq> [])
                (BlobDeleteIfExists (last_segment (p_imageUrl photo)))
            @ [ItemDelete PHOTOS pid pid, CacheDel [CACHE_KEYS_photo pid], CacheKeys ''photos:*'']
            @ opt_call (filter (glob_match ''photos:*'')
                  (map fst (filter (\<lambda>x. fst x \<noteq> CACHE_KEYS_photo pid) (redis w))) \<noteq> [])
                (CacheDel (filter (glob_match ''photos:*'')
                  (map fst (filter (\<lambda>x. fst x \<noteq> CACHE_KEYS_photo pid) (redis w))))))"
  using assms
  unfolding deletePhotoHandler_def
  apply (subst (asm) try_catch_ok)
    apply (simp add: json_resp_def)
   apply simp
  apply (clarsimp simp add: inr_simps Let_def json_resp_def)
  apply (elim disjE exE conjE)
     apply (simp_all add: opt_call_simps)
  done

subsection \<open>The like count stays non-negative through every step\<close>











lemma preserves_call:
  "(\<And>w t. I (w\<lparr>trace := t\<rparr>) = I w) \<Longrightarrow> preserves I m \<Longrightarrow> preserves I (call e op m)"
  by (simp add: preserves_def call_def Let_def)

lemma likes_nonneg_trace [simp]: "likes_nonneg (w\<lparr>trace := t\<rparr>) = likes_nonneg w"
  by (simp add: likes_nonneg_def)

lemma likes_nonneg_other [simp]:
  "likes_nonneg (w\<lparr>redis := c\<rparr>) = likes_nonneg w"
  "likes_nonneg (w\<lparr>blob_store := b\<rparr>) = likes_nonneg w"
  "likes_nonneg (w\<lparr>db_likes := ls\<rparr>) = likes_nonneg w"
  "likes_nonneg (w\<lparr>db_comments := cs\<rparr>) = likes_nonneg w"
  by (simp_all add: likes_nonneg_def)














subsection \<open>Liking twice, unliking what was never liked\<close>

text \<open>
  Claim C4. When the store holds a photo with id \<open>P\<close> and a Like record for \<open>(P, U)\<close>, a
  like request by \<open>U\<close> for \<open>P\<close> is answered with 409; no Like record is created and no
  photo changes, so the stored like count stays as it was. The handler only reads: its
  calls are the two container look-ups, the read of the photo and the query for the like.
\<close>

theorem like_twice_conflict:
  assumes "params request ''photoId'' = Some P" and "P \<noteq> []"
    and "headers request ''x-user-id'' = Some U" and "U \<noteq> []"
    and "P \<in> set (map p_id (db_photos w))"
    and "filter (\<lambda>l. l_photoId l = P \<and> l_userId l = U) (db_likes w) \<noteq> []"
    and "\<not> faulty e (GetContainer PHOTOS)" and "\<not> faulty e (ItemRead PHOTOS P P)"
    and "\<not> faulty e (GetContainer LIKES)" and "\<not> faulty e (Query LIKES)"
  shows "fst (likePhoto e request w) = json_resp 409 (BError ''Already liked'')
       \<and> status (fst (likePhoto e request w)) = 409
       \<and> db_likes (snd (likePhoto e request w)) = db_likes w
       \<and> db_photos (snd (likePhoto e request w)) = db_photos w
       \<and> snd (likePhoto e request w) =
           w\<lparr>trace := trace w @ [GetContainer PHOTOS, ItemRead PHOTOS P P,
                                  GetContainer LIKES, Query LIKES]\<rparr>"
proof -
  obtain p where "find (\<lambda>p. p_id p = P) (db_photos w) = Some p"
    using find_p_id_Some [OF assms(5)] by blast
  then have "likePhoto e request w =
           (json_resp 409 (BError ''Already liked''),
            w\<lparr>trace := trace w @ [GetContainer PHOTOS, ItemRead PHOTOS P P,
                                   GetContainer LIKES, Query LIKES]\<rparr>)"
    using assms by (simp add: likePhoto_def io_defs store_defs Let_def)
  then show ?thesis by (simp add: json_resp_def)
qed

theorem like_twice_conflict_witness:
  "status (fst (likePhoto sample_env
             (mk_request [(''photoId'', ''p1'')] [(''x-user-id'', ''u2'')] NoBody) sample_world)) = 409
   \<and> db_likes (snd (likePhoto sample_env
             (mk_request [(''photoId'', ''p1'')] [(''x-user-id'', ''u2'')] NoBody) sample_world))
       = [sample_like]
   \<and> db_photos (snd (likePhoto sample_env
             (mk_request [(''photoId'', ''p1'')] [(''x-user-id'', ''u2'')] NoBody) sample_world))
       = [sample_photo]"
  using like_twice_conflict [of "mk_request [(''photoId'', ''p1'')] [(''x-user-id'', ''u2'')] NoBody"
      "''p1''" "''u2''" sample_world sample_env]
  by (simp add: sample_defs json_resp_def)

text \<open>
  Claim C5. When the store holds no Like record for \<open>(P, U)\<close>, an unlike request by \<open>U\<close>
  for \<open>P\<close> is answered with 404; no Like record is deleted and no photo changes, so the
  stored like count stays as it was.
\<close>

theorem unlike_absent_not_found:
  assumes "params request ''photoId'' = Some P" and "P \<noteq> []"
    and "headers request ''x-user-id'' = Some U" and "U \<noteq> []"
    and "filter (\<lambda>l. l_photoId l = P \<and> l_userId l = U) (db_likes w) = []"
    and "\<not> faulty e (GetContainer LIKES)" and "\<not> faulty e (Query LIKES)"
  shows "fst (unlikePhoto e request w) = json_resp 404 (BError ''Like not found'')
       \<and> status (fst (unlikePhoto e request w)) = 404
       \<and> db_likes (snd (unlikePhoto e request w)) = db_likes w
       \<and> db_photos (snd (unlikePhoto e request w)) = db_photos w
       \<and> snd (unlikePhoto e request w) = w\<lparr>trace := trace w @ [GetContainer LIKES, Query LIKES]\<rparr>"
proof -
  have "unlikePhoto e request w =
           (json_resp 404 (BError ''Like not found''),
            w\<lparr>trace := trace w @ [GetContainer LIKES, Query LIKES]\<rparr>)"
    using assms by (simp add: unlikePhoto_def io_defs store_defs Let_def)
  then show ?thesis by (simp add: json_resp_def)
qed

theorem unlike_absent_not_found_witness:
  "status (fst (unlikePhoto sample_env
             (mk_request [(''photoId'', ''p1'')] [(''x-user-id'', ''u9'')] NoBody) sample_world)) = 404
   \<and> db_likes (snd (unlikePhoto sample_env
             (mk_request [(''photoId'', ''p1'')] [(''x-user-id'', ''u9'')] NoBody) sample_world))
       = [sample_like]
   \<and> db_photos (snd (unlikePhoto sample_env
             (mk_request [(''photoId'', ''p1'')] [(''x-user-id'', ''u9'')] NoBody) sample_world))
       = [sample_photo]"
  using unlike_absent_not_found [of "mk_request [(''photoId'', ''p1'')] [(''x-user-id'', ''u9'')] NoBody"
      "''p1''" "''u9''" sample_world sample_env]
  by (simp add: sample_defs json_resp_def)

subsection \<open>Missing caller identity\<close>

lemma unauthenticated_401:
  assumes "\<not> present (headers request ''x-user-id'')"
  shows "present (params request ''photoId'') \<Longrightarrow>
           likePhoto e request w = (json_resp 401 (BError ''Not authenticated''), w)"
    and "present (params request ''photoId'') \<Longrightarrow>
           unlikePhoto e request w = (json_resp 401 (BError ''Not authenticated''), w)"
    and "present (params request ''photoId'') \<Longrightarrow>
           createComment e request w = (json_resp 401 (BError ''Not authenticated''), w)"
    and "present (params request ''id'') \<Longrightarrow>
           deleteComment e request w = (json_resp 401 (BError ''Not authenticated''), w)"
  using assms
  by (auto simp add: likePhoto_def unlikePhoto_def createComment_def deleteComment_def io_defs
      Let_def present_def split: option.splits)

lemma createPhoto_never_401: "status (fst (createPhoto e request w)) \<noteq> 401"
proof
  assume a: "status (fst (createPhoto e request w)) = 401"
  obtain r w' where rw: "createPhoto e request w = (r, w')"
    by (cases "createPhoto e request w")
  with a have "status r = 401" by simp
  with rw show False
    unfolding createPhoto_def
    apply (subst (asm) try_catch_ok)
      apply (simp add: json_resp_def)
     apply simp
    apply (clarsimp simp add: inr_simps Let_def json_resp_def)
    apply (elim disjE exE conjE)
       apply simp_all
    done
qed

lemma deletePhotoHandler_never_401: "status (fst (deletePhotoHandler e request w)) \<noteq> 401"
proof
  assume a: "status (fst (deletePhotoHandler e request w)) = 401"
  obtain r w' where rw: "deletePhotoHandler e request w = (r, w')"
    by (cases "deletePhotoHandler e request w")
  with a have "status r = 401" by simp
  with rw show False
    unfolding deletePhotoHandler_def
    apply (subst (asm) try_catch_ok)
      apply (simp add: json_resp_def)
     apply simp
    apply (clarsimp simp add: inr_simps Let_def json_resp_def)
    apply (elim disjE exE conjE)
       apply simp_all
    done
qed

lemma createPhoto_role_gate:
  "headers request ''x-user-role'' \<noteq> Some ''creator'' \<Longrightarrow>
     createPhoto e request w = (json_resp 403 (BError ''Only creators can upload photos''), w)"
  by (simp add: createPhoto_def io_defs Let_def)

text \<open>
  Claim C2, as stated, fails: \<open>createPhoto\<close> never looks at \<open>x-user-id\<close> before writing. A
  request without the header and with the role \<open>creator\<close> is answered 201, the blob is
  uploaded and a photo with a \<open>null\<close> creator is stored.
\<close>

theorem createPhoto_without_identity_counterexample:
  "headers (mk_request [] [(''x-user-role'', ''creator'')]
       (FormBody \<lparr>fd_image = Some \<lparr>f_name = ''a.png'', f_type = ''image/png'', f_data = ''xx''\<rparr>,
                  fd_title = Some ''T'', fd_caption = None, fd_location = None,
                  fd_people = None\<rparr>)) ''x-user-id'' = None
   \<and> status (fst (createPhoto sample_env
       (mk_request [] [(''x-user-role'', ''creator'')]
         (FormBody \<lparr>fd_image = Some \<lparr>f_name = ''a.png'', f_type = ''image/png'', f_data = ''xx''\<rparr>,
                    fd_title = Some ''T'', fd_caption = None, fd_location = None,
                    fd_people = None\<rparr>)) sample_world)) = 201
   \<and> db_photos (snd (createPhoto sample_env
       (mk_request [] [(''x-user-role'', ''creator'')]
         (FormBody \<lparr>fd_image = Some \<lparr>f_name = ''a.png'', f_type = ''image/png'', f_data = ''xx''\<rparr>,
                    fd_title = Some ''T'', fd_caption = None, fd_location = None,
                    fd_people = None\<rparr>)) sample_world))
     = [sample_photo,
        \<lparr>p_id = ''id-1'', p_creatorId = None, p_creatorName = None,
         p_imageUrl = ''https://blobs/photos/id-1-a.png'', p_title = ''T'', p_caption = None,
         p_location = None, p_people = None, p_likes = 0,
         p_createdAt = ''2024-05-01T10:00:00.000Z''\<rparr>]"
  by (simp add: createPhoto_def io_defs store_defs cache_defs blob_defs formData_def Let_def
      json_resp_def sample_defs)

text \<open>
  Claim C2, amended. For the like, unlike, create-comment and delete-comment handlers,
  every request whose route id parameter is present and whose \<open>x-user-id\<close> header is
  absent or empty is answered 401, and the handler calls neither the store nor the cache:
  the world is left exactly as it was. The photo handlers have no identity check and never
  answer 401: \<open>createPhoto\<close> is gated on the role header alone (any role but \<open>creator\<close> is
  answered 403 with nothing written), \<open>deletePhotoHandler\<close> on ownership or the admin role.
\<close>

theorem identity_required_where_checked:
  assumes "\<not> present (headers request ''x-user-id'')"
  shows "(present (params request ''photoId'') \<longrightarrow>
            likePhoto e request w = (json_resp 401 (BError ''Not authenticated''), w)
          \<and> unlikePhoto e request w = (json_resp 401 (BError ''Not authenticated''), w)
          \<and> createComment e request w = (json_resp 401 (BError ''Not authenticated''), w))
       \<and> (present (params request ''id'') \<longrightarrow>
            deleteComment e request w = (json_resp 401 (BError ''Not authenticated''), w))
       \<and> status (fst (createPhoto e request w)) \<noteq> 401
       \<and> (headers request ''x-user-role'' \<noteq> Some ''creator'' \<longrightarrow>
            createPhoto e request w
              = (json_resp 403 (BError ''Only creators can upload photos''), w))
       \<and> status (fst (deletePhotoHandler e request w)) \<noteq> 401"
  using unauthenticated_401 [OF assms] createPhoto_never_401 deletePhotoHandler_never_401
    createPhoto_role_gate
  by blast

theorem identity_required_where_checked_witness:
  "likePhoto sample_env (mk_request [(''photoId'', ''p1''), (''id'', ''c1'')] [] NoBody) sample_world
     = (json_resp 401 (BError ''Not authenticated''), sample_world)
   \<and> deleteComment sample_env (mk_request [(''photoId'', ''p1''), (''id'', ''c1'')] [] NoBody) sample_world
     = (json_resp 401 (BError ''Not authenticated''), sample_world)
   \<and> createPhoto sample_env (mk_request [(''photoId'', ''p1''), (''id'', ''c1'')] [] NoBody) sample_world
     = (json_resp 403 (BError ''Only creators can upload photos''), sample_world)"
  using identity_required_where_checked
    [of "mk_request [(''photoId'', ''p1''), (''id'', ''c1'')] [] NoBody" sample_env sample_world]
  by (simp add: mk_request_def present_def)

subsection \<open>Who may delete\<close>

lemma deleteComment_authz:
  assumes "params request ''id'' = Some cid" and "cid \<noteq> []"
    and "headers request ''x-user-id'' = Some U" and "U \<noteq> []"
    and "filter (\<lambda>c. c_id c = cid) (db_comments w) = c # rest"
    and "\<forall>op. \<not> faulty e op"
  shows "if c_userId c = U \<or> headers request ''x-user-role'' = Some ''admin''
         then status (fst (deleteComment e request w)) = 204
            \<and> db_comments (snd (deleteComment e request w))
                = filter (\<lambda>k. \<not> (c_id k = cid \<and> c_photoId k = c_photoId c)) (db_comments w)
            \<and> c \<notin> set (db_comments (snd (deleteComment e request w)))
         else status (fst (deleteComment e request w)) = 403
            \<and> db_comments (snd (deleteComment e request w)) = db_comments w
            \<and> c \<in> set (db_comments (snd (deleteComment e request w)))"
proof -
  have "c \<in> set (filter (\<lambda>c. c_id c = cid) (db_comments w))"
    by (simp add: assms(5))
  then have cin: "c \<in> set (db_comments w)" and cid: "c_id c = cid"
    by simp_all
  then have ne: "filter (\<lambda>k. c_id k = cid \<and> c_photoId k = c_photoId c) (db_comments w) \<noteq> []"
    by (auto simp add: filter_empty_conv)
  show ?thesis
    using assms cin cid ne
    by (simp add: deleteComment_def io_defs store_defs cache_defs Let_def json_resp_def)
qed

lemma deletePhotoHandler_authz:
  assumes "params request ''id'' = Some pid" and "pid \<noteq> []"
    and "find (\<lambda>p. p_id p = pid) (db_photos w) = Some p"
    and "\<forall>op. \<not> faulty e op"
  shows "if p_creatorId p = headers request ''x-user-id''
            \<or> headers request ''x-user-role'' = Some ''admin''
         then status (fst (deletePhotoHandler e request w)) = 204
            \<and> db_photos (snd (deletePhotoHandler e request w))
                = filter (\<lambda>q. p_id q \<noteq> pid) (db_photos w)
            \<and> p \<notin> set (db_photos (snd (deletePhotoHandler e request w)))
         else status (fst (deletePhotoHandler e request w)) = 403
            \<and> db_photos (snd (deletePhotoHandler e request w)) = db_photos w
            \<and> blob_store (snd (deletePhotoHandler e request w)) = blob_store w
            \<and> p \<in> set (db_photos (snd (deletePhotoHandler e request w)))"
proof -
  have pin: "p \<in> set (db_photos w)" and pid: "p_id p = pid"
    using find_Some_props [OF assms(3)] by simp_all
  then have ne: "filter (\<lambda>q. p_id q = pid) (db_photos w) \<noteq> []"
    by (auto simp add: filter_empty_conv)
  show ?thesis
    using assms pin pid ne
    by (simp add: deletePhotoHandler_def io_defs store_defs cache_defs blob_defs Let_def
        json_resp_def)
qed

text \<open>
  Claim C6. For a comment that exists (the first one the query by id returns) and a caller
  with an id, and for a photo that exists, with every service answering: the delete
  handler removes the resource and answers 204 exactly when the caller's id is the
  recorded owner (\<open>userId\<close> of the comment, \<open>creatorId\<close> of the photo) or the caller's
  role is \<open>admin\<close>; for every other caller it answers 403 and the resource is still in
  the store.
\<close>

theorem delete_authorization_matrix:
  assumes "\<forall>op. \<not> faulty e op"
  shows "(params request ''id'' = Some cid \<and> cid \<noteq> [] \<and>
          headers request ''x-user-id'' = Some U \<and> U \<noteq> [] \<and>
          filter (\<lambda>c. c_id c = cid) (db_comments w) = c # rest \<longrightarrow>
            (if c_userId c = U \<or> headers request ''x-user-role'' = Some ''admin''
             then status (fst (deleteComment e request w)) = 204
                \<and> db_comments (snd (deleteComment e request w))
                    = filter (\<lambda>k. \<not> (c_id k = cid \<and> c_photoId k = c_photoId c)) (db_comments w)
                \<and> c \<notin> set (db_comments (snd (deleteComment e request w)))
             else status (fst (deleteComment e request w)) = 403
                \<and> db_comments (snd (deleteComment e request w)) = db_comments w
                \<and> c \<in> set (db_comments (snd (deleteComment e request w)))))
       \<and> (params request ''id'' = Some pid \<and> pid \<noteq> [] \<and>
          find (\<lambda>p. p_id p = pid) (db_photos w) = Some p \<longrightarrow>
            (if p_creatorId p = headers request ''x-user-id''
                \<or> headers request ''x-user-role'' = Some ''admin''
             then status (fst (deletePhotoHandler e request w)) = 204
                \<and> db_photos (snd (deletePhotoHandler e request w))
                    = filter (\<lambda>q. p_id q \<noteq> pid) (db_photos w)
                \<and> p \<notin> set (db_photos (snd (deletePhotoHandler e request w)))
             else status (fst (deletePhotoHandler e request w)) = 403
                \<and> db_photos (snd (deletePhotoHandler e request w)) = db_photos w
                \<and> blob_store (snd (deletePhotoHandler e request w)) = blob_store w
                \<and> p \<in> set (db_photos (snd (deletePhotoHandler e request w)))))"
proof (intro conjI impI)
  assume a: "params request ''id'' = Some cid \<and> cid \<noteq> [] \<and>
          headers request ''x-user-id'' = Some U \<and> U \<noteq> [] \<and>
          filter (\<lambda>c. c_id c = cid) (db_comments w) = c # rest"
  show "if c_userId c = U \<or> headers request ''x-user-role'' = Some ''admin''
             then status (fst (deleteComment e request w)) = 204
                \<and> db_comments (snd (deleteComment e request w))
                    = filter (\<lambda>k. \<not> (c_id k = cid \<and> c_photoId k = c_photoId c)) (db_comments w)
                \<and> c \<notin> set (db_comments (snd (deleteComment e request w)))
             else status (fst (deleteComment e request w)) = 403
                \<and> db_comments (snd (deleteComment e request w)) = db_comments w
                \<and> c \<in> set (db_comments (snd (deleteComment e request w)))"
    by (rule deleteComment_authz [of request cid U w c rest e]) (use a assms in blast)+
next
  assume a: "params request ''id'' = Some pid \<and> pid \<noteq> [] \<and>
          find (\<lambda>p. p_id p = pid) (db_photos w) = Some p"
  show "if p_creatorId p = headers request ''x-user-id''
                \<or> headers request ''x-user-role'' = Some ''admin''
             then status (fst (deletePhotoHandler e request w)) = 204
                \<and> db_photos (snd (deletePhotoHandler e request w))
                    = filter (\<lambda>q. p_id q \<noteq> pid) (db_photos w)
                \<and> p \<notin> set (db_photos (snd (deletePhotoHandler e request w)))
             else status (fst (deletePhotoHandler e request w)) = 403
                \<and> db_photos (snd (deletePhotoHandler e request w)) = db_photos w
                \<and> blob_store (snd (deletePhotoHandler e request w)) = blob_store w
                \<and> p \<in> set (db_photos (snd (deletePhotoHandler e request w)))"
    by (rule deletePhotoHandler_authz [of request pid w p e]) (use a assms in blast)+
qed

text \<open>
  On the sample store, comment \<open>c1\<close> belongs to \<open>u2\<close>: the owner deletes it, a stranger is
  refused, an admin deletes it.
\<close>

theorem delete_authorization_matrix_witness:
  "status (fst (deleteComment sample_env
      (mk_request [(''id'', ''c1'')] [(''x-user-id'', ''u2'')] NoBody) sample_world)) = 204
   \<and> db_comments (snd (deleteComment sample_env
      (mk_request [(''id'', ''c1'')] [(''x-user-id'', ''u2'')] NoBody) sample_world))
       = [sample_comment ''c2'' ''u3'' ''2024-04-30T11:00:00.000Z'']
   \<and> status (fst (deleteComment sample_env
      (mk_request [(''id'', ''c1'')] [(''x-user-id'', ''u3'')] NoBody) sample_world)) = 403
   \<and> db_comments (snd (deleteComment sample_env
      (mk_request [(''id'', ''c1'')] [(''x-user-id'', ''u3'')] NoBody) sample_world))
       = db_comments sample_world
   \<and> status (fst (deleteComment sample_env
      (mk_request [(''id'', ''c1'')] [(''x-user-id'', ''u3''), (''x-user-role'', ''admin'')] NoBody)
        sample_world)) = 204
   \<and> status (fst (deletePhotoHandler sample_env
      (mk_request [(''id'', ''p1'')] [(''x-user-id'', ''u3'')] NoBody) sample_world)) = 403
   \<and> status (fst (deletePhotoHandler sample_env
      (mk_request [(''id'', ''p1'')] [(''x-user-id'', ''u1'')] NoBody) sample_world)) = 204
   \<and> db_photos (snd (deletePhotoHandler sample_env
      (mk_request [(''id'', ''p1'')] [(''x-user-id'', ''u1'')] NoBody) sample_world)) = []"
proof -
  have nf: "\<forall>op. \<not> faulty sample_env op"
    by (simp add: sample_env_def)
  have q: "filter (\<lambda>c. c_id c = ''c1'') (db_comments sample_world)
             = sample_comment ''c1'' ''u2'' ''2024-04-30T09:30:00.000Z'' # []"
    by (simp add: sample_world_def sample_comment_def)
  have f: "find (\<lambda>p. p_id p = ''p1'') (db_photos sample_world) = Some sample_photo"
    by (simp add: sample_world_def sample_photo_def)
  note m = delete_authorization_matrix [OF nf, where cid = "''c1''" and pid = "''p1''"
      and w = sample_world and rest = "[]" and p = sample_photo
      and c = "sample_comment ''c1'' ''u2'' ''2024-04-30T09:30:00.000Z''"]
  have 1: "status (fst (deleteComment sample_env
      (mk_request [(''id'', ''c1'')] [(''x-user-id'', ''u2'')] NoBody) sample_world)) = 204
   \<and> db_comments (snd (deleteComment sample_env
      (mk_request [(''id'', ''c1'')] [(''x-user-id'', ''u2'')] NoBody) sample_world))
       = [sample_comment ''c2'' ''u3'' ''2024-04-30T11:00:00.000Z'']"
    using m [where request = "mk_request [(''id'', ''c1'')] [(''x-user-id'', ''u2'')] NoBody"
        and U = "''u2''"] q
    by (simp add: mk_request_def sample_comment_def sample_world_def)
  have 2: "status (fst (deleteComment sample_env
      (mk_request [(''id'', ''c1'')] [(''x-user-id'', ''u3'')] NoBody) sample_world)) = 403
   \<and> db_comments (snd (deleteComment sample_env
      (mk_request [(''id'', ''c1'')] [(''x-user-id'', ''u3'')] NoBody) sample_world))
       = db_comments sample_world"
    using m [where request = "mk_request [(''id'', ''c1'')] [(''x-user-id'', ''u3'')] NoBody"
        and U = "''u3''"] q
    by (simp add: mk_request_def sample_comment_def)
  have 3: "status (fst (deleteComment sample_env
      (mk_request [(''id'', ''c1'')] [(''x-user-id'', ''u3''), (''x-user-role'', ''admin'')] NoBody)
        sample_world)) = 204"
    using m [where request = "mk_request [(''id'', ''c1'')]
                [(''x-user-id'', ''u3''), (''x-user-role'', ''admin'')] NoBody"
        and U = "''u3''"] q
    by (simp add: mk_request_def sample_comment_def)
  have 4: "status (fst (deletePhotoHandler sample_env
      (mk_request [(''id'', ''p1'')] [(''x-user-id'', ''u3'')] NoBody) sample_world)) = 403"
    using m [where request = "mk_request [(''id'', ''p1'')] [(''x-user-id'', ''u3'')] NoBody"] f
    by (simp add: mk_request_def sample_photo_def)
  have 5: "status (fst (deletePhotoHandler sample_env
      (mk_request [(''id'', ''p1'')] [(''x-user-id'', ''u1'')] NoBody) sample_world)) = 204
   \<and> db_photos (snd (deletePhotoHandler sample_env
      (mk_request [(''id'', ''p1'')] [(''x-user-id'', ''u1'')] NoBody) sample_world)) = []"
    using m [where request = "mk_request [(''id'', ''p1'')] [(''x-user-id'', ''u1'')] NoBody"] f
    by (simp add: mk_request_def sample_photo_def sample_world_def)
  from 1 2 3 4 5 show ?thesis by blast
qed

subsection \<open>Blank comments\<close>

lemma blank_trim: "blank s \<Longrightarrow> trim s = []"
  by (induction s) (auto simp: blank_def trim_def)

lemma createComment_blank_unchanged:
  assumes "req_body request = JsonBody (JObj content)" and "blank_content content"
  shows "snd (createComment e request w) = w"
proof -
  have a: "request_json request = ret (JObj content)"
    using assms(1) by (simp add: request_json_def)
  show ?thesis
  proof (cases content)
    case None
    then show ?thesis using a
      by (simp add: createComment_def io_defs Let_def split: option.splits)
  next
    case (Some cv)
    show ?thesis
    proof (cases cv)
      case (CStr s)
      then have "trim s = []" using assms(2) Some by (simp add: blank_content_def blank_trim)
      then show ?thesis using a Some CStr
        by (simp add: createComment_def io_defs Let_def split: option.splits)
    next
      case CFalsy
      then show ?thesis using a Some
        by (simp add: createComment_def io_defs Let_def split: option.splits)
    next
      case CTruthy
      then show ?thesis using assms(2) Some by (simp add: blank_content_def)
    qed
  qed
qed

lemma createComment_blank_status:
  assumes "req_body request = JsonBody (JObj content)" and "blank_content content"
  shows "fst (createComment e request w) =
           (if \<not> present (params request ''photoId'') then json_resp 400 (BError ''Photo ID required'')
            else if \<not> present (headers request ''x-user-id'')
            then json_resp 401 (BError ''Not authenticated'')
            else json_resp 400 (BError ''Comment content required''))"
proof -
  have a: "request_json request = ret (JObj content)"
    using assms(1) by (simp add: request_json_def)
  show ?thesis
  proof (cases content)
    case None
    then show ?thesis using a
      by (simp add: createComment_def io_defs Let_def present_def split: option.splits)
  next
    case (Some cv)
    show ?thesis
    proof (cases cv)
      case (CStr s)
      then have "trim s = []" using assms(2) Some by (simp add: blank_content_def blank_trim)
      then show ?thesis using a Some CStr
        by (simp add: createComment_def io_defs Let_def present_def split: option.splits)
    next
      case CFalsy
      then show ?thesis using a Some
        by (simp add: createComment_def io_defs Let_def present_def split: option.splits)
    next
      case CTruthy
      then show ?thesis using assms(2) Some by (simp add: blank_content_def)
    qed
  qed
qed

text \<open>
  Claim C7. A comment-creation request whose \<open>content\<close> is missing, empty or white space
  only never creates a Comment record: the handler returns before its first call to the
  store, so the world is exactly as before. For a request that carries the photo id and a
  caller identity the answer is the 400 validation error \<open>Comment content required\<close>;
  without the photo id it is the 400 \<open>Photo ID required\<close>, and without a caller identity
  the 401 check, which comes first, answers.
\<close>

theorem createComment_blank_rejected:
  assumes "req_body request = JsonBody (JObj content)" and "blank_content content"
  shows "snd (createComment e request w) = w
       \<and> db_comments (snd (createComment e request w)) = db_comments w
       \<and> (present (params request ''photoId'') \<and> present (headers request ''x-user-id'') \<longrightarrow>
            fst (createComment e request w) = json_resp 400 (BError ''Comment content required'')
            \<and> status (fst (createComment e request w)) = 400)
       \<and> status (fst (createComment e request w))
           = (if present (params request ''photoId'') \<and> \<not> present (headers request ''x-user-id'')
              then 401 else 400)"
  using createComment_blank_unchanged [OF assms, of e w] createComment_blank_status [OF assms, of e w]
  by (simp add: json_resp_def)

theorem createComment_blank_rejected_witness:
  "blank_content (Some (CStr [CHR '' '', CHR 0x09, CHR 0x0A, CHR '' '']))
   \<and> createComment sample_env
        (mk_request [(''photoId'', ''p1'')] [(''x-user-id'', ''u2'')]
           (JsonBody (JObj (Some (CStr [CHR '' '', CHR 0x09, CHR 0x0A, CHR '' ''])))))
        sample_world
      = (json_resp 400 (BError ''Comment content required''), sample_world)"
proof -
  have b: "blank_content (Some (CStr [CHR '' '', CHR 0x09, CHR 0x0A, CHR '' '']))"
    by (simp add: blank_content_def blank_def is_ws_def)
  have "req_body (mk_request [(''photoId'', ''p1'')] [(''x-user-id'', ''u2'')]
           (JsonBody (JObj (Some (CStr [CHR '' '', CHR 0x09, CHR 0x0A, CHR '' ''])))))
        = JsonBody (JObj (Some (CStr [CHR '' '', CHR 0x09, CHR 0x0A, CHR '' ''])))"
    by (simp add: mk_request_def)
  from createComment_blank_rejected [OF this b, of sample_env sample_world] b
  show ?thesis
    by (simp add: mk_request_def present_def prod_eq_iff)
qed

subsection \<open>Like counts\<close>








subsection \<open>Comments, newest first\<close>

lemma sort_createdAt_desc_sorted:
  "sorted_wrt (\<lambda>a b. f a \<ge> f b) (sort_createdAt_desc f xs)"
  using sorted_sort_key [of f xs]
  by (simp add: sort_createdAt_desc_def sorted_wrt_rev sorted_map)

lemma sort_createdAt_desc_set: "set (sort_createdAt_desc f xs) = set xs"
  by (simp add: sort_createdAt_desc_def)

lemma sort_createdAt_desc_length: "length (sort_createdAt_desc f xs) = length xs"
  by (simp add: sort_createdAt_desc_def)

lemma getComments_miss:
  assumes "params request ''photoId'' = Some P" and "P \<noteq> []"
    and "\<not> is_hit w (CACHE_KEYS_photoComments P)"
    and "\<not> faulty e (CacheGet (CACHE_KEYS_photoComments P))"
    and "\<not> faulty e (GetContainer COMMENTS)" and "\<not> faulty e (Query COMMENTS)"
    and "\<not> faulty e (CacheSet (CACHE_KEYS_photoComments P) 60)"
  shows "getComments e request w =
     (json_resp 200 (BValue (VComments (sort_createdAt_desc c_createdAt
                                          (filter (\<lambda>c. c_photoId c = P) (db_comments w))))),
      w\<lparr>redis := (CACHE_KEYS_photoComments P,
                   VComments (sort_createdAt_desc c_createdAt
                                (filter (\<lambda>c. c_photoId c = P) (db_comments w))), 60)
                  # filter (\<lambda>en. fst en \<noteq> CACHE_KEYS_photoComments P) (redis w),
         trace := trace w @ [CacheGet (CACHE_KEYS_photoComments P), GetContainer COMMENTS,
                             Query COMMENTS, CacheSet (CACHE_KEYS_photoComments P) 60]\<rparr>)"
  using assms
  by (simp add: getComments_def io_defs store_defs cache_defs Let_def is_hit_def cached_value_def)

text \<open>
  Claim C10. When the comment list of a photo is not served from the cache and the four
  service calls answer, \<open>getComments\<close> returns 200 with exactly the photo's comments,
  ordered by \<open>createdAt\<close> descending (newest first), and the value it writes to the cache
  under the photo's comment key, with TTL 60, is that same list in that same order.
\<close>

theorem getComments_newest_first:
  assumes "params request ''photoId'' = Some P" and "P \<noteq> []"
    and "\<not> is_hit w (CACHE_KEYS_photoComments P)"
    and "\<not> faulty e (CacheGet (CACHE_KEYS_photoComments P))"
    and "\<not> faulty e (GetContainer COMMENTS)" and "\<not> faulty e (Query COMMENTS)"
    and "\<not> faulty e (CacheSet (CACHE_KEYS_photoComments P) 60)"
  shows "\<exists>cs. fst (getComments e request w) = json_resp 200 (BValue (VComments cs))
            \<and> sorted_wrt (\<lambda>a b. c_createdAt a \<ge> c_createdAt b) cs
            \<and> set cs = {c \<in> set (db_comments w). c_photoId c = P}
            \<and> length cs = length (filter (\<lambda>c. c_photoId c = P) (db_comments w))
            \<and> map_of (redis (snd (getComments e request w))) (CACHE_KEYS_photoComments P)
                = Some (VComments cs, 60)"
proof -
  let ?cs = "sort_createdAt_desc c_createdAt (filter (\<lambda>c. c_photoId c = P) (db_comments w))"
  have "fst (getComments e request w) = json_resp 200 (BValue (VComments ?cs))"
    and "map_of (redis (snd (getComments e request w))) (CACHE_KEYS_photoComments P)
          = Some (VComments ?cs, 60)"
    by (simp_all add: getComments_miss [OF assms])
  moreover have "sorted_wrt (\<lambda>a b. c_createdAt a \<ge> c_createdAt b) ?cs"
    by (rule sort_createdAt_desc_sorted)
  moreover have "set ?cs = {c \<in> set (db_comments w). c_photoId c = P}"
    by (auto simp add: sort_createdAt_desc_set)
  moreover have "length ?cs = length (filter (\<lambda>c. c_photoId c = P) (db_comments w))"
    by (rule sort_createdAt_desc_length)
  ultimately show ?thesis by blast
qed

text \<open>On the sample store the comment of 11:00 comes before the comment of 09:30.\<close>

theorem getComments_newest_first_witness:
  "(\<exists>cs. fst (getComments sample_env (mk_request [(''photoId'', ''p1'')] [] NoBody) sample_world)
            = json_resp 200 (BValue (VComments cs))
         \<and> sorted_wrt (\<lambda>a b. c_createdAt a \<ge> c_createdAt b) cs
         \<and> map_of (redis (snd (getComments sample_env
                (mk_request [(''photoId'', ''p1'')] [] NoBody) sample_world)))
              (CACHE_KEYS_photoComments ''p1'') = Some (VComments cs, 60))
   \<and> fst (getComments sample_env (mk_request [(''photoId'', ''p1'')] [] NoBody) sample_world)
       = json_resp 200 (BValue (VComments
           [sample_comment ''c2'' ''u3'' ''2024-04-30T11:00:00.000Z'',
            sample_comment ''c1'' ''u2'' ''2024-04-30T09:30:00.000Z'']))
   \<and> redis (snd (getComments sample_env (mk_request [(''photoId'', ''p1'')] [] NoBody) sample_world))
       = [(''photo:p1:comments'',
           VComments [sample_comment ''c2'' ''u3'' ''2024-04-30T11:00:00.000Z'',
                      sample_comment ''c1'' ''u2'' ''2024-04-30T09:30:00.000Z''], 60)]"
proof -
  let ?rq = "mk_request [(''photoId'', ''p1'')] [] NoBody"
  have p: "params ?rq ''photoId'' = Some ''p1''"
    by (simp add: mk_request_def)
  have m: "\<not> is_hit sample_world (CACHE_KEYS_photoComments ''p1'')"
    by (simp add: is_hit_def cached_value_def sample_world_def)
  have nf: "\<And>op. \<not> faulty sample_env op"
    by (simp add: sample_env_def)
  have lt: "''2024-04-30T09:30:00.000Z'' < ''2024-04-30T11:00:00.000Z''"
    by (simp add: less_char_def)
  have so: "sort_createdAt_desc c_createdAt
              (filter (\<lambda>c. c_photoId c = ''p1'') (db_comments sample_world))
            = [sample_comment ''c2'' ''u3'' ''2024-04-30T11:00:00.000Z'',
               sample_comment ''c1'' ''u2'' ''2024-04-30T09:30:00.000Z'']"
    using lt by (simp add: sort_createdAt_desc_def sample_world_def sample_comment_def)
  have ex: "\<exists>cs. fst (getComments sample_env ?rq sample_world) = json_resp 200 (BValue (VComments cs))
         \<and> sorted_wrt (\<lambda>a b. c_createdAt a \<ge> c_createdAt b) cs
         \<and> map_of (redis (snd (getComments sample_env ?rq sample_world)))
              (CACHE_KEYS_photoComments ''p1'') = Some (VComments cs, 60)"
    using getComments_newest_first [OF p _ m nf nf nf nf] by blast
  have run: "getComments sample_env ?rq sample_world
      = (json_resp 200 (BValue (VComments
           [sample_comment ''c2'' ''u3'' ''2024-04-30T11:00:00.000Z'',
            sample_comment ''c1'' ''u2'' ''2024-04-30T09:30:00.000Z''])),
         sample_world\<lparr>redis := [(''photo:p1:comments'',
             VComments [sample_comment ''c2'' ''u3'' ''2024-04-30T11:00:00.000Z'',
                        sample_comment ''c1'' ''u2'' ''2024-04-30T09:30:00.000Z''], 60)],
           trace := [CacheGet ''photo:p1:comments'', GetContainer COMMENTS, Query COMMENTS,
                     CacheSet ''photo:p1:comments'' 60]\<rparr>)"
    using getComments_miss [OF p _ m nf nf nf nf] so
    by (simp add: key_defs sample_world_def)
  from ex run show ?thesis by simp
qed

subsection \<open>A cache that fails after the write\<close>

lemma no_faults_simps:
  "faulty (no_faults e) op = False" "uuidv4 (no_faults e) = uuidv4 e"
  "now_iso (no_faults e) = now_iso e" "like_pk (no_faults e) = like_pk e"
  "blob_url (no_faults e) = blob_url e"
  by (simp_all add: no_faults_def like_pk_def fun_eq_iff)

lemma calls_made_append: "trace w1 = trace w @ ops \<Longrightarrow> calls_made w w1 = ops"
  by (simp add: calls_made_def)

lemma only_invalidation:
  "\<forall>op. faulty e op \<longrightarrow> is_invalidation op \<Longrightarrow> \<not> is_invalidation op \<Longrightarrow> \<not> faulty e op"
  by blast

lemma likePhoto_invalidation_fails:
  assumes ok: "likePhoto (no_faults e) request w = (r, w1)" "status r = 201"
    and only: "\<forall>op. faulty e op \<longrightarrow> is_invalidation op"
    and hit: "\<exists>op\<in>set (calls_made w w1). faulty e op"
  shows "fst (likePhoto e request w) = json_resp 500 (BError ''Failed to like photo'')
       \<and> same_store (snd (likePhoto e request w)) w1"
proof -
  note nf = only_invalidation [OF only]
  from likePhoto_201 [OF ok] obtain P U photo where
    f: "params request ''photoId'' = Some P" "P \<noteq> []"
       "headers request ''x-user-id'' = Some U" "U \<noteq> []"
       "find (\<lambda>p. p_id p = P) (db_photos w) = Some photo"
       "filter (\<lambda>l. l_photoId l = P \<and> l_userId l = U) (db_likes w) = []"
       "filter (\<lambda>k. l_id k = uuidv4 e \<and> like_pk e k
            = like_pk e \<lparr>l_id = uuidv4 e, l_photoId = P, l_userId = U, l_createdAt = now_iso e\<rparr>)
           (db_likes w) = []"
    and w1: "w1 = w\<lparr>db_likes := db_likes w @ [\<lparr>l_id = uuidv4 e, l_photoId = P, l_userId = U,
                                           l_createdAt = now_iso e\<rparr>],
                db_photos := map (\<lambda>q. if p_id q = P then photo\<lparr>p_likes := p_likes photo + 1\<rparr>
                                       else q) (db_photos w),
                trace := trace w @ [GetContainer PHOTOS, ItemRead PHOTOS P P, GetContainer LIKES,
                   Query LIKES, ItemsCreate LIKES, ItemsUpsert PHOTOS,
                   CacheDel [CACHE_KEYS_photoLikes P], CacheDel [CACHE_KEYS_photo P]],
                redis := filter (\<lambda>x. fst x \<noteq> CACHE_KEYS_photoLikes P \<and> fst x \<noteq> CACHE_KEYS_photo P)
                           (redis w)\<rparr>"
    by (auto simp add: no_faults_simps)
  have c: "calls_made w w1 = [GetContainer PHOTOS, ItemRead PHOTOS P P, GetContainer LIKES,
                   Query LIKES, ItemsCreate LIKES, ItemsUpsert PHOTOS,
                   CacheDel [CACHE_KEYS_photoLikes P], CacheDel [CACHE_KEYS_photo P]]"
    by (rule calls_made_append) (simp add: w1)
  have h: "faulty e (CacheDel [CACHE_KEYS_photoLikes P]) \<or> faulty e (CacheDel [CACHE_KEYS_photo P])"
    using hit nf by (auto simp add: c)
  have pm: "P \<in> p_id ` set (db_photos w)" and pp: "p_id photo = P"
    using find_p_id_props [OF f(5)] by simp_all
  show ?thesis
    using f h pm pp
    by (auto simp add: likePhoto_def io_defs store_defs cache_defs Let_def same_store_def w1 nf or0_def)
qed

lemma unlikePhoto_invalidation_fails:
  assumes ok: "unlikePhoto (no_faults e) request w = (r, w1)" "status r = 200"
    and only: "\<forall>op. faulty e op \<longrightarrow> is_invalidation op"
    and hit: "\<exists>op\<in>set (calls_made w w1). faulty e op"
  shows "fst (unlikePhoto e request w) = json_resp 500 (BError ''Failed to unlike photo'')
       \<and> same_store (snd (unlikePhoto e request w)) w1"
proof -
  note nf = only_invalidation [OF only]
  from unlikePhoto_200 [OF ok] obtain P U like rest where
    f: "params request ''photoId'' = Some P" "P \<noteq> []"
       "headers request ''x-user-id'' = Some U" "U \<noteq> []"
       "filter (\<lambda>l. l_photoId l = P \<and> l_userId l = U) (db_likes w) = like # rest"
       "filter (\<lambda>l. l_id l = l_id like \<and> like_pk e l = l_photoId like) (db_likes w) \<noteq> []"
    and s: "db_likes w1 = filter (\<lambda>l. \<not> (l_id l = l_id like \<and> like_pk e l = l_photoId like)) (db_likes w)"
       "db_comments w1 = db_comments w" "blob_store w1 = blob_store w"
    and c: "case find (\<lambda>p. p_id p = P) (db_photos w) of
            None \<Rightarrow> db_photos w1 = db_photos w
              \<and> trace w1 = trace w @ [GetContainer LIKES, Query LIKES,
                   ItemDelete LIKES (l_id like) (l_photoId like), GetContainer PHOTOS,
                   ItemRead PHOTOS P P,
                   CacheDel [CACHE_KEYS_photoLikes P], CacheDel [CACHE_KEYS_photo P]]
          | Some photo \<Rightarrow>
              db_photos w1 = map (\<lambda>q. if p_id q = P
                                        then photo\<lparr>p_likes := max 0 (p_likes photo - 1)\<rparr> else q)
                                 (db_photos w)
              \<and> trace w1 = trace w @ [GetContainer LIKES, Query LIKES,
                   ItemDelete LIKES (l_id like) (l_photoId like), GetContainer PHOTOS,
                   ItemRead PHOTOS P P, ItemsUpsert PHOTOS,
                   CacheDel [CACHE_KEYS_photoLikes P], CacheDel [CACHE_KEYS_photo P]]"
    by (auto simp add: no_faults_simps)
  show ?thesis
  proof (cases "find (\<lambda>p. p_id p = P) (db_photos w)")
    case None
    with c have p: "db_photos w1 = db_photos w"
      and cm: "calls_made w w1 = [GetContainer LIKES, Query LIKES,
                   ItemDelete LIKES (l_id like) (l_photoId like), GetContainer PHOTOS,
                   ItemRead PHOTOS P P,
                   CacheDel [CACHE_KEYS_photoLikes P], CacheDel [CACHE_KEYS_photo P]]"
      by (simp_all add: calls_made_append)
    have h: "faulty e (CacheDel [CACHE_KEYS_photoLikes P]) \<or> faulty e (CacheDel [CACHE_KEYS_photo P])"
      using hit nf by (auto simp add: cm)
    show ?thesis
      using f h None
      by (auto simp add: unlikePhoto_def io_defs store_defs cache_defs Let_def same_store_def s p nf)
  next
    case (Some photo)
    with c have p: "db_photos w1 = map (\<lambda>q. if p_id q = P
                                        then photo\<lparr>p_likes := max 0 (p_likes photo - 1)\<rparr> else q)
                                 (db_photos w)"
      and cm: "calls_made w w1 = [GetContainer LIKES, Query LIKES,
                   ItemDelete LIKES (l_id like) (l_photoId like), GetContainer PHOTOS,
                   ItemRead PHOTOS P P, ItemsUpsert PHOTOS,
                   CacheDel [CACHE_KEYS_photoLikes P], CacheDel [CACHE_KEYS_photo P]]"
      by (simp_all add: calls_made_append)
    have h: "faulty e (CacheDel [CACHE_KEYS_photoLikes P]) \<or> faulty e (CacheDel [CACHE_KEYS_photo P])"
      using hit nf by (auto simp add: cm)
    have pm: "P \<in> p_id ` set (db_photos w)" and pp: "p_id photo = P"
      using find_p_id_props [OF Some] by simp_all
    show ?thesis
      using f h Some pm pp
      by (auto simp add: unlikePhoto_def io_defs store_defs cache_defs Let_def same_store_def s p nf
          or0_def)
  qed
qed

lemma createComment_invalidation_fails:
  assumes ok: "createComment (no_faults e) request w = (r, w1)" "status r = 201"
    and only: "\<forall>op. faulty e op \<longrightarrow> is_invalidation op"
    and hit: "\<exists>op\<in>set (calls_made w w1). faulty e op"
  shows "fst (createComment e request w) = json_resp 500 (BError ''Failed to create comment'')
       \<and> same_store (snd (createComment e request w)) w1"
proof -
  note nf = only_invalidation [OF only]
  from createComment_201 [OF ok] obtain P U s photo c where
    f: "params request ''photoId'' = Some P" "P \<noteq> []"
       "headers request ''x-user-id'' = Some U" "U \<noteq> []"
       "req_body request = JsonBody (JObj (Some (CStr s)))" "s \<noteq> []" "trim s \<noteq> []"
       "find (\<lambda>p. p_id p = P) (db_photos w) = Some photo"
       "filter (\<lambda>k. c_id k = uuidv4 e \<and> c_photoId k = P) (db_comments w) = []"
    and r: "r = json_resp 201 (BComment c)"
    and w1: "w1 = w\<lparr>db_comments := db_comments w @ [c],
                      trace := trace w @ [GetContainer PHOTOS, ItemRead PHOTOS P P,
                        GetContainer COMMENTS, ItemsCreate COMMENTS,
                        CacheDel [CACHE_KEYS_photoComments P]],
                      redis := filter (\<lambda>x. fst x \<noteq> CACHE_KEYS_photoComments P) (redis w)\<rparr>"
    by (auto simp add: no_faults_simps)
  have cm: "calls_made w w1 = [GetContainer PHOTOS, ItemRead PHOTOS P P,
                        GetContainer COMMENTS, ItemsCreate COMMENTS,
                        CacheDel [CACHE_KEYS_photoComments P]]"
    by (rule calls_made_append) (simp add: w1)
  have h: "faulty e (CacheDel [CACHE_KEYS_photoComments P])"
    using hit nf by (auto simp add: cm)
  have nff: "\<not> faulty (no_faults e) (CacheDel [CACHE_KEYS_photoComments P])"
    by (simp add: no_faults_simps)
  have run0: "createComment (no_faults e) request w = (r, w1)" by (rule ok(1))
  have "db_comments w1 = db_comments (snd (createComment e request w))
      \<and> fst (createComment e request w) = json_resp 500 (BError ''Failed to create comment'')
      \<and> db_photos (snd (createComment e request w)) = db_photos w
      \<and> db_likes (snd (createComment e request w)) = db_likes w
      \<and> blob_store (snd (createComment e request w)) = blob_store w"
    using f h run0
    by (auto simp add: createComment_def io_defs store_defs cache_defs request_json_def Let_def nf
        no_faults_simps split: if_splits)
  then show ?thesis
    by (simp add: same_store_def w1)
qed

lemma deleteComment_invalidation_fails:
  assumes ok: "deleteComment (no_faults e) request w = (r, w1)" "status r = 204"
    and only: "\<forall>op. faulty e op \<longrightarrow> is_invalidation op"
    and hit: "\<exists>op\<in>set (calls_made w w1). faulty e op"
  shows "fst (deleteComment e request w) = json_resp 500 (BError ''Failed to delete comment'')
       \<and> same_store (snd (deleteComment e request w)) w1"
proof -
  note nf = only_invalidation [OF only]
  from deleteComment_204 [OF ok] obtain cid U c rest where
    f: "params request ''id'' = Some cid" "cid \<noteq> []"
       "headers request ''x-user-id'' = Some U" "U \<noteq> []"
       "filter (\<lambda>c. c_id c = cid) (db_comments w) = c # rest"
       "c_userId c = U \<or> headers request ''x-user-role'' = Some ''admin''"
       "filter (\<lambda>k. c_id k = cid \<and> c_photoId k = c_photoId c) (db_comments w) \<noteq> []"
    and w1: "w1 = w\<lparr>db_comments := filter (\<lambda>k. \<not> (c_id k = cid \<and> c_photoId k = c_photoId c))
                                     (db_comments w),
                trace := trace w @ [GetContainer COMMENTS, Query COMMENTS,
                   ItemDelete COMMENTS cid (c_photoId c),
                   CacheDel [CACHE_KEYS_photoComments (c_photoId c)]],
                redis := filter (\<lambda>x. fst x \<noteq> CACHE_KEYS_photoComments (c_photoId c)) (redis w)\<rparr>"
    by (auto simp add: no_faults_simps)
  have cm: "calls_made w w1 = [GetContainer COMMENTS, Query COMMENTS,
                   ItemDelete COMMENTS cid (c_photoId c),
                   CacheDel [CACHE_KEYS_photoComments (c_photoId c)]]"
    by (rule calls_made_append) (simp add: w1)
  have h: "faulty e (CacheDel [CACHE_KEYS_photoComments (c_photoId c)])"
    using hit nf by (auto simp add: cm)
  show ?thesis
    using f h
    by (auto simp add: deleteComment_def io_defs store_defs cache_defs Let_def same_store_def w1 nf)
qed

lemma opt_call_mem: "op \<in> set (opt_call c op') \<longleftrightarrow> c \<and> op = op'"
  by (auto simp add: opt_call_def)

lemma createPhoto_invalidation_fails:
  assumes ok: "createPhoto (no_faults e) request w = (r, w1)" "status r = 201"
    and only: "\<forall>op. faulty e op \<longrightarrow> is_invalidation op"
    and hit: "\<exists>op\<in>set (calls_made w w1). faulty e op"
  shows "fst (createPhoto e request w) = json_resp 500 (BError ''Failed to create photo'')
       \<and> same_store (snd (createPhoto e request w)) w1"
proof -
  note nf = only_invalidation [OF only]
  let ?keys = "filter (glob_match ''photos:*'') (map fst (redis w))"
  from createPhoto_201 [OF ok] obtain fd fl title where
    f: "req_body request = FormBody fd" "fd_image fd = Some fl"
       "fd_title fd = Some title" "title \<noteq> []"
       "headers request ''x-user-role'' = Some ''creator''"
       "uuidv4 e \<notin> set (map p_id (db_photos w))"
    and t: "trace w1 = trace w @ [BlobUpload (uuidv4 e @ ''-'' @ f_name fl), GetContainer PHOTOS,
            ItemsCreate PHOTOS, CacheKeys ''photos:*'']
            @ opt_call (?keys \<noteq> []) (CacheDel ?keys)"
    by (auto simp add: no_faults_simps)
  have cm: "calls_made w w1 = [BlobUpload (uuidv4 e @ ''-'' @ f_name fl), GetContainer PHOTOS,
            ItemsCreate PHOTOS, CacheKeys ''photos:*'']
            @ opt_call (?keys \<noteq> []) (CacheDel ?keys)"
    by (rule calls_made_append) (rule t)
  have h: "faulty e (CacheKeys ''photos:*'') \<or> (?keys \<noteq> [] \<and> faulty e (CacheDel ?keys))"
    using hit nf by (auto simp add: cm opt_call_mem)
  have w1: "w1 = snd (createPhoto (no_faults e) request w)"
    by (simp add: ok(1))
  have "fst (createPhoto e request w) = json_resp 500 (BError ''Failed to create photo'')
      \<and> same_store (snd (createPhoto e request w)) (snd (createPhoto (no_faults e) request w))"
  proof (cases "faulty e (CacheKeys ''photos:*'')")
    case True
    then show ?thesis
      using f
      by (simp add: createPhoto_def io_defs store_defs cache_defs blob_defs formData_def Let_def
          nf no_faults_simps same_store_def)
  next
    case False
    with h have "?keys \<noteq> []" and "faulty e (CacheDel ?keys)" by simp_all
    with False show ?thesis
      using f
      by (simp add: createPhoto_def io_defs store_defs cache_defs blob_defs formData_def Let_def
          nf no_faults_simps same_store_def)
  qed
  then show ?thesis
    by (simp add: w1)
qed

lemma deletePhotoHandler_invalidation_fails:
  assumes ok: "deletePhotoHandler (no_faults e) request w = (r, w1)" "status r = 204"
    and only: "\<forall>op. faulty e op \<longrightarrow> is_invalidation op"
    and hit: "\<exists>op\<in>set (calls_made w w1). faulty e op"
  shows "fst (deletePhotoHandler e request w) = json_resp 500 (BError ''Failed to delete photo'')
       \<and> same_store (snd (deletePhotoHandler e request w)) w1"
proof -
  note nf = only_invalidation [OF only]
  from deletePhotoHandler_204 [OF ok] obtain pid photo where
    f: "params request ''id'' = Some pid" "pid \<noteq> []"
       "find (\<lambda>p. p_id p = pid) (db_photos w) = Some photo"
       "p_creatorId photo = headers request ''x-user-id''
           \<or> headers request ''x-user-role'' = Some ''admin''"
    and t: "trace w1 = trace w @ [GetContainer PHOTOS, ItemRead PHOTOS pid pid]
            @ opt_call (last_segment (p_imageUrl photo) \<noteq> [])
                (BlobDeleteIfExists (last_segment (p_imageUrl photo)))
            @ [ItemDelete PHOTOS pid pid, CacheDel [CACHE_KEYS_photo pid], CacheKeys ''photos:*'']
            @ opt_call (filter (glob_match ''photos:*'')
                  (map fst (filter (\<lambda>x. fst x \<noteq> CACHE_KEYS_photo pid) (redis w))) \<noteq> [])
                (CacheDel (filter (glob_match ''photos:*'')
                  (map fst (filter (\<lambda>x. fst x \<noteq> CACHE_KEYS_photo pid) (redis w)))))"
    by (auto simp add: no_faults_simps)
  let ?keys = "filter (glob_match ''photos:*'')
                  (map fst (filter (\<lambda>x. fst x \<noteq> CACHE_KEYS_photo pid) (redis w)))"
  have cm: "calls_made w w1 = [GetContainer PHOTOS, ItemRead PHOTOS pid pid]
            @ opt_call (last_segment (p_imageUrl photo) \<noteq> [])
                (BlobDeleteIfExists (last_segment (p_imageUrl photo)))
            @ [ItemDelete PHOTOS pid pid, CacheDel [CACHE_KEYS_photo pid], CacheKeys ''photos:*'']
            @ opt_call (?keys \<noteq> []) (CacheDel ?keys)"
    by (rule calls_made_append) (rule t)
  have h: "faulty e (CacheDel [CACHE_KEYS_photo pid]) \<or> faulty e (CacheKeys ''photos:*'')
           \<or> (?keys \<noteq> [] \<and> faulty e (CacheDel ?keys))"
    using hit nf by (auto simp add: cm opt_call_mem)
  have pin: "photo \<in> set (db_photos w)" and pp: "p_id photo = pid"
    using find_Some_props [OF f(3)] by simp_all
  then have ne: "filter (\<lambda>q. p_id q = pid) (db_photos w) \<noteq> []"
    by (auto simp add: filter_empty_conv)
  have az: "\<And>x y :: response io.
      (if p_creatorId photo \<noteq> headers request ''x-user-id''
          \<and> headers request ''x-user-role'' \<noteq> Some ''admin'' then x else y) = y"
    using f(4) by auto
  note g = f(1-3) ne
  have w1: "w1 = snd (deletePhotoHandler (no_faults e) request w)"
    by (simp add: ok(1))
  have "fst (deletePhotoHandler e request w) = json_resp 500 (BError ''Failed to delete photo'')
      \<and> same_store (snd (deletePhotoHandler e request w))
                    (snd (deletePhotoHandler (no_faults e) request w))"
  proof (cases "faulty e (CacheDel [CACHE_KEYS_photo pid])")
    case True
    then show ?thesis
      using g
      by (simp add: deletePhotoHandler_def io_defs store_defs cache_defs blob_defs Let_def
          nf no_faults_simps same_store_def az)
  next
    case d: False
    show ?thesis
    proof (cases "faulty e (CacheKeys ''photos:*'')")
      case True
      with d show ?thesis
        using g
        by (simp add: deletePhotoHandler_def io_defs store_defs cache_defs blob_defs Let_def
            nf no_faults_simps same_store_def az)
    next
      case False
      with h d have "?keys \<noteq> []" and "faulty e (CacheDel ?keys)" by simp_all
      with False d show ?thesis
        using g
        by (simp add: deletePhotoHandler_def io_defs store_defs cache_defs blob_defs Let_def
            nf no_faults_simps same_store_def az)
    qed
  qed
  then show ?thesis
    by (simp add: w1)
qed

text \<open>
  Claim C1, as stated, fails: the invalidation calls sit inside the handler's \<open>try\<close>
  block, so when \<open>cacheDelete\<close> throws after the writes, the \<open>catch\<close> answers 500. Here
  user \<open>u3\<close> likes photo \<open>p1\<close> while the cache is down: the Like record is created, the
  count goes from 1 to 2, and the response is 500, where the same request with the cache
  up gets 201.
\<close>

theorem likePhoto_cache_down_counterexample:
  "status (fst (likePhoto (sample_env\<lparr>faulty := is_invalidation\<rparr>)
       (mk_request [(''photoId'', ''p1'')] [(''x-user-id'', ''u3'')] NoBody) sample_world)) = 500
   \<and> db_likes (snd (likePhoto (sample_env\<lparr>faulty := is_invalidation\<rparr>)
       (mk_request [(''photoId'', ''p1'')] [(''x-user-id'', ''u3'')] NoBody) sample_world))
       = [sample_like,
          \<lparr>l_id = ''id-1'', l_photoId = ''p1'', l_userId = ''u3'',
           l_createdAt = ''2024-05-01T10:00:00.000Z''\<rparr>]
   \<and> map p_likes (db_photos (snd (likePhoto (sample_env\<lparr>faulty := is_invalidation\<rparr>)
       (mk_request [(''photoId'', ''p1'')] [(''x-user-id'', ''u3'')] NoBody) sample_world))) = [2]
   \<and> trace (snd (likePhoto (sample_env\<lparr>faulty := is_invalidation\<rparr>)
       (mk_request [(''photoId'', ''p1'')] [(''x-user-id'', ''u3'')] NoBody) sample_world))
       = [GetContainer PHOTOS, ItemRead PHOTOS ''p1'' ''p1'', GetContainer LIKES, Query LIKES,
          ItemsCreate LIKES, ItemsUpsert PHOTOS, CacheDel [''photo:p1:likes'']]
   \<and> status (fst (likePhoto sample_env
       (mk_request [(''photoId'', ''p1'')] [(''x-user-id'', ''u3'')] NoBody) sample_world)) = 201"
  by (simp add: likePhoto_def io_defs store_defs cache_defs key_defs Let_def or0_def like_pk_def
      json_resp_def sample_defs)

text \<open>
  Claim C1, amended. Take any mutation handler and a request that, with every service
  answering, ends in the handler's success response (201, 200 or 204). Run it again in an
  environment in which nothing but cache invalidation can fail (\<open>cacheDelete\<close>, or the
  \<open>keys\<close> and \<open>del\<close> of \<open>cacheInvalidatePattern\<close>), and in which one of the invalidation
  calls the handler makes does fail: the handler answers 500, and the document store and
  blob storage hold exactly what the successful run wrote. The write is neither rolled
  back nor reported as a success.
\<close>

theorem invalidation_failure_reports_500:
  assumes "mutation_handler m (no_faults e) request w = (r, w1)"
    and "status r = success_status m"
    and "\<forall>op. faulty e op \<longrightarrow> is_invalidation op"
    and "\<exists>op\<in>set (calls_made w w1). faulty e op"
  shows "status (fst (mutation_handler m e request w)) = 500
       \<and> same_store (snd (mutation_handler m e request w)) w1"
proof (cases m)
  case LikePhoto
  with assms likePhoto_invalidation_fails [of e request w r w1] show ?thesis
    by (simp add: json_resp_def)
next
  case UnlikePhoto
  with assms unlikePhoto_invalidation_fails [of e request w r w1] show ?thesis
    by (simp add: json_resp_def)
next
  case CreateComment
  with assms createComment_invalidation_fails [of e request w r w1] show ?thesis
    by (simp add: json_resp_def)
next
  case DeleteComment
  with assms deleteComment_invalidation_fails [of e request w r w1] show ?thesis
    by (simp add: json_resp_def)
next
  case CreatePhoto
  with assms createPhoto_invalidation_fails [of e request w r w1] show ?thesis
    by (simp add: json_resp_def)
next
  case DeletePhoto
  with assms deletePhotoHandler_invalidation_fails [of e request w r w1] show ?thesis
    by (simp add: json_resp_def)
qed

text \<open>
  The owner \<open>u2\<close> deletes comment \<open>c1\<close> while the cache is down: 500, and the comment is
  gone from the store all the same.
\<close>

theorem invalidation_failure_reports_500_witness:
  "mutation_handler DeleteComment (no_faults (sample_env\<lparr>faulty := is_invalidation\<rparr>))
       (mk_request [(''id'', ''c1'')] [(''x-user-id'', ''u2'')] NoBody) sample_world
     = (\<lparr>status = 204, jsonBody = None\<rparr>,
        sample_world\<lparr>db_comments := [sample_comment ''c2'' ''u3'' ''2024-04-30T11:00:00.000Z''],
          trace := [GetContainer COMMENTS, Query COMMENTS, ItemDelete COMMENTS ''c1'' ''p1'',
                    CacheDel [''photo:p1:comments'']]\<rparr>)
   \<and> status (fst (mutation_handler DeleteComment (sample_env\<lparr>faulty := is_invalidation\<rparr>)
       (mk_request [(''id'', ''c1'')] [(''x-user-id'', ''u2'')] NoBody) sample_world)) = 500
   \<and> db_comments (snd (mutation_handler DeleteComment (sample_env\<lparr>faulty := is_invalidation\<rparr>)
       (mk_request [(''id'', ''c1'')] [(''x-user-id'', ''u2'')] NoBody) sample_world))
       = [sample_comment ''c2'' ''u3'' ''2024-04-30T11:00:00.000Z'']"
proof -
  let ?e = "sample_env\<lparr>faulty := is_invalidation\<rparr>"
  let ?rq = "mk_request [(''id'', ''c1'')] [(''x-user-id'', ''u2'')] NoBody"
  let ?w1 = "sample_world\<lparr>db_comments := [sample_comment ''c2'' ''u3'' ''2024-04-30T11:00:00.000Z''],
          trace := [GetContainer COMMENTS, Query COMMENTS, ItemDelete COMMENTS ''c1'' ''p1'',
                    CacheDel [''photo:p1:comments'']]\<rparr>"
  have run: "mutation_handler DeleteComment (no_faults ?e) ?rq sample_world
               = (\<lparr>status = 204, jsonBody = None\<rparr>, ?w1)"
    by (simp add: deleteComment_def io_defs store_defs cache_defs key_defs Let_def no_faults_def
        sample_defs)
  have st: "status \<lparr>status = 204, jsonBody = None\<rparr> = success_status DeleteComment"
    by simp
  have only: "\<forall>op. faulty ?e op \<longrightarrow> is_invalidation op"
    by simp
  have hit: "\<exists>op\<in>set (calls_made sample_world ?w1). faulty ?e op"
    by (simp add: calls_made_def sample_world_def)
  from invalidation_failure_reports_500 [OF run st only hit] run
  show ?thesis
    by (simp add: same_store_def)
qed

subsection \<open>Reading through the cache\<close>

lemma is_hit_D: "is_hit w key \<Longrightarrow> \<exists>v. cached_value w key = Some v \<and> truthy v"
  by (auto simp add: is_hit_def split: option.splits)

lemma js_num_Num: "js_num v = Num n \<Longrightarrow> v = n \<and> safe_integer n"
  by (auto simp add: js_num_def split: if_splits)

lemma parseInt_Num: "parseInt s = Num n \<Longrightarrow> safe_integer n"
  by (auto simp add: parseInt_def Let_def dest: js_num_Num split: if_splits)

lemma js_offset_exact:
  assumes "safe_integer pg" and "safe_integer lim" and "1 \<le> pg"
    and "safe_integer ((pg - 1) * lim)"
  shows "js_times (js_minus (Num pg) 1) (Num lim) = Some (Num ((pg - 1) * lim))"
proof -
  have p: "safe_integer (pg - 1)"
    using assms(1,3) by (simp add: safe_integer_def)
  have "js_minus (Num pg) 1 = Some (Num (pg - 1))"
    using assms(1) p by (simp add: js_minus_def js_num_def safe_integer_def)
  then show ?thesis
    using p assms(2,4) by (simp add: js_times_def js_num_def)
qed

lemma getPhotos_hit:
  assumes "key = CACHE_KEYS_photos e (parseInt (query_or request ''page'' ''1''))"
    and "is_hit w key" and "\<not> faulty e (CacheGet key)"
  shows "getPhotos e request w =
           (\<lparr>status = 200, jsonBody = map_option BValue (cached_value w key)\<rparr>,
            w\<lparr>trace := trace w @ [CacheGet key]\<rparr>)"
  using assms is_hit_D [OF assms(2)]
  by (auto simp add: getPhotos_def io_defs cache_defs Let_def cached_value_def)

lemma getPhoto_hit:
  assumes "params request ''id'' = Some i" and "i \<noteq> []" and "key = CACHE_KEYS_photo i"
    and "is_hit w key" and "\<not> faulty e (CacheGet key)"
  shows "getPhoto e request w =
           (\<lparr>status = 200, jsonBody = map_option BValue (cached_value w key)\<rparr>,
            w\<lparr>trace := trace w @ [CacheGet key]\<rparr>)"
  using assms is_hit_D [OF assms(4)]
  by (auto simp add: getPhoto_def io_defs cache_defs Let_def cached_value_def)

lemma getComments_hit:
  assumes "params request ''photoId'' = Some P" and "P \<noteq> []" and "key = CACHE_KEYS_photoComments P"
    and "is_hit w key" and "\<not> faulty e (CacheGet key)"
  shows "getComments e request w =
           (\<lparr>status = 200, jsonBody = map_option BValue (cached_value w key)\<rparr>,
            w\<lparr>trace := trace w @ [CacheGet key]\<rparr>)"
  using assms is_hit_D [OF assms(4)]
  by (auto simp add: getComments_def io_defs cache_defs Let_def cached_value_def)

lemma getLikes_hit:
  assumes "params request ''photoId'' = Some P" and "P \<noteq> []" and "key = CACHE_KEYS_photoLikes P"
    and "cached_value w key = Some v"
    and "\<not> faulty e (CacheGet key)" and "\<not> faulty e (GetContainer LIKES)"
    and "\<not> faulty e (Query LIKES)"
  shows "getLikes e request w =
           (json_resp 200 (BLikes v
              (present (headers request ''x-user-id'')
               \<and> filter (\<lambda>l. l_photoId l = P \<and> Some (l_userId l) = headers request ''x-user-id'')
                    (db_likes w) \<noteq> [])),
            w\<lparr>trace := trace w @ [CacheGet key, GetContainer LIKES]
                        @ opt_call (present (headers request ''x-user-id'')) (Query LIKES)\<rparr>)"
  using assms
  by (auto simp add: getLikes_def io_defs cache_defs store_defs Let_def cached_value_def present_def
      opt_call_def or0_def split: option.splits)

lemma getPhotos_miss:
  assumes "key = CACHE_KEYS_photos e (Num pg)"
    and "parseInt (query_or request ''page'' ''1'') = Num pg"
    and "parseInt (query_or request ''limit'' ''20'') = Num lim"
    and "1 \<le> pg" and "0 \<le> lim" and "safe_integer ((pg - 1) * lim)"
    and "\<not> is_hit w key" and "\<forall>op. \<not> faulty e op"
    and "photos = take (nat lim) (drop (nat ((pg - 1) * lim))
                    (sort_createdAt_desc p_createdAt (db_photos w)))"
  shows "getPhotos e request w =
           (json_resp 200 (BValue (VPhotos photos)),
            w\<lparr>redis := (key, VPhotos photos, 60) # filter (\<lambda>en. fst en \<noteq> key) (redis w),
               trace := trace w @ [CacheGet key, GetContainer PHOTOS, Query PHOTOS,
                                   CacheSet key 60]\<rparr>)"
proof -
  have sp: "safe_integer pg" and sl: "safe_integer lim"
    using assms(2,3) by (auto dest: parseInt_Num)
  have off: "js_times (js_minus (Num pg) 1) (Num lim) = Some (Num ((pg - 1) * lim))"
    using sp sl assms(4,6) by (rule js_offset_exact)
  have nonneg: "0 \<le> (pg - 1) * lim"
    using assms(4,5) by simp
  show ?thesis
    using assms(1,2,3,5,6,7,8,9) off sl nonneg
    by (simp add: getPhotos_def io_defs cache_defs store_defs Let_def is_hit_def cached_value_def)
qed

lemma getPhoto_miss_found:
  assumes "params request ''id'' = Some i" and "i \<noteq> []" and "key = CACHE_KEYS_photo i"
    and "\<not> is_hit w key" and "\<forall>op. \<not> faulty e op"
    and "find (\<lambda>p. p_id p = i) (db_photos w) = Some photo"
  shows "getPhoto e request w =
           (json_resp 200 (BValue (VPhoto photo)),
            w\<lparr>redis := (key, VPhoto photo, 300) # filter (\<lambda>en. fst en \<noteq> key) (redis w),
               trace := trace w @ [CacheGet key, GetContainer PHOTOS, ItemRead PHOTOS i i,
                                   CacheSet key 300]\<rparr>)"
  using assms
  by (simp add: getPhoto_def io_defs cache_defs store_defs Let_def is_hit_def cached_value_def)

lemma getPhoto_miss_absent:
  assumes "params request ''id'' = Some i" and "i \<noteq> []" and "key = CACHE_KEYS_photo i"
    and "\<not> is_hit w key" and "\<forall>op. \<not> faulty e op"
    and "find (\<lambda>p. p_id p = i) (db_photos w) = None"
  shows "getPhoto e request w =
           (json_resp 404 (BError ''Photo not found''),
            w\<lparr>trace := trace w @ [CacheGet key, GetContainer PHOTOS, ItemRead PHOTOS i i]\<rparr>)"
  using assms
  by (simp add: getPhoto_def io_defs cache_defs store_defs Let_def is_hit_def cached_value_def)

lemma getLikes_miss:
  assumes "params request ''photoId'' = Some P" and "P \<noteq> []" and "key = CACHE_KEYS_photoLikes P"
    and "cached_value w key = None" and "\<forall>op. \<not> faulty e op"
    and "n = int (length (filter (\<lambda>l. l_photoId l = P) (db_likes w)))"
  shows "getLikes e request w =
           (json_resp 200 (BLikes (VNum n)
              (present (headers request ''x-user-id'')
               \<and> filter (\<lambda>l. l_photoId l = P \<and> Some (l_userId l) = headers request ''x-user-id'')
                    (db_likes w) \<noteq> [])),
            w\<lparr>redis := (key, VNum n, 60) # filter (\<lambda>en. fst en \<noteq> key) (redis w),
               trace := trace w @ [CacheGet key, GetContainer LIKES, Query LIKES, CacheSet key 60]
                        @ opt_call (present (headers request ''x-user-id'')) (Query LIKES)\<rparr>)"
  using assms
  by (auto simp add: getLikes_def io_defs cache_defs store_defs Let_def cached_value_def present_def
      opt_call_def or0_def split: option.splits)

text \<open>
  Outside the range of the miss lemma the photo list behaves otherwise. A page of 0 gives
  the offset \<open>-20\<close>, which the store rejects: the miss is answered 500 and nothing is
  cached. A page of \<open>2^53 + 1\<close> is not held exactly, and the key is what the runtime
  prints for its double.
\<close>

lemma getPhotos_page_zero:
  "getPhotos sample_env ((mk_request [] [] NoBody)\<lparr>query := [''page'' \<mapsto> ''0'']\<rparr>) sample_world
     = (json_resp 500 (BError ''Failed to fetch photos''),
        sample_world\<lparr>trace := [CacheGet ''photos:page:0'', GetContainer PHOTOS, Query PHOTOS]\<rparr>)"
proof -
  have "string_of_nat 0 = ''0''"
    by code_simp
  then show ?thesis
    by (simp add: getPhotos_def io_defs store_defs cache_defs key_defs Let_def mk_request_def
        sample_world_def sample_env_def query_or_def parseInt_def is_ws_def digit_val_def
        is_digit_in_def digits_value_def js_num_def safe_integer_def js_string_of_num_def
        js_minus_def js_times_def)
qed

lemma CACHE_KEYS_photos_beyond_safe:
  "CACHE_KEYS_photos e (parseInt ''9007199254740993'')
     = ''photos:page:'' @ big_string e 9007199254740993"
  by (simp add: parseInt_def is_ws_def digit_val_def is_digit_in_def digits_value_def
      js_num_def safe_integer_def Let_def CACHE_KEYS_photos_def js_string_of_num_def)

text \<open>
  Claim C8, as stated, fails for the like-count reader: on a cache hit it still goes to
  the document store, for the container and, when the request names a caller, for the
  caller's own like. Here the cache holds the count 7 for photo \<open>p1\<close>; the request of
  \<open>u2\<close> is answered with that count and \<open>userHasLiked\<close>, after a query on the Likes
  container.
\<close>

theorem getLikes_hit_queries_store_counterexample:
  "cached_value (sample_world\<lparr>redis := [(''photo:p1:likes'', VNum 7, 60)]\<rparr>)
       (CACHE_KEYS_photoLikes ''p1'') = Some (VNum 7)
   \<and> getLikes sample_env (mk_request [(''photoId'', ''p1'')] [(''x-user-id'', ''u2'')] NoBody)
       (sample_world\<lparr>redis := [(''photo:p1:likes'', VNum 7, 60)]\<rparr>)
     = (json_resp 200 (BLikes (VNum 7) True),
        sample_world\<lparr>redis := [(''photo:p1:likes'', VNum 7, 60)],
          trace := [CacheGet ''photo:p1:likes'', GetContainer LIKES, Query LIKES]\<rparr>)
   \<and> is_store_op (Query LIKES)"
  by (simp add: getLikes_def io_defs store_defs cache_defs key_defs Let_def cached_value_def
      sample_defs)

text \<open>
  Claim C8, amended. For the photo-list, single-photo and comment-list readers: when the
  cache holds a truthy value under the request's key and the cache read answers, that
  value is returned with 200 and the cache read is the only call made, whatever state the
  store is in. For the like-count reader: when the cache holds a value under the key, it is
  returned as \<open>count\<close> and neither the count query nor a cache write is made, but the
  handler still obtains the Likes container and, for a request with a caller id, queries
  the store for that caller's like. On a miss, with every service answering, the store is
  queried, the result is written to the cache under the key with TTL 60 (photo list,
  comment list, like count) or 300 (single photo), and the queried value is returned; a
  single-photo read that finds no photo returns 404 and leaves the cache as it was. For
  the photo list this is the miss of a request whose \<open>page\<close> reads as an integer of at
  least 1 and whose \<open>limit\<close> reads as an integer of at least 0, with page, limit and the
  offset \<open>(page - 1) * limit\<close> below \<open>2^53\<close>; the key is then \<open>photos:page:\<close> followed by
  the page's decimal digits.
\<close>

theorem cache_aside_reads:
  "(key = CACHE_KEYS_photos e (parseInt (query_or request ''page'' ''1'')) \<and> is_hit w key
      \<and> \<not> faulty e (CacheGet key) \<longrightarrow>
      getPhotos e request w =
        (\<lparr>status = 200, jsonBody = map_option BValue (cached_value w key)\<rparr>,
         w\<lparr>trace := trace w @ [CacheGet key]\<rparr>))
   \<and> (params request ''id'' = Some i \<and> i \<noteq> [] \<and> key = CACHE_KEYS_photo i \<and> is_hit w key
      \<and> \<not> faulty e (CacheGet key) \<longrightarrow>
      getPhoto e request w =
        (\<lparr>status = 200, jsonBody = map_option BValue (cached_value w key)\<rparr>,
         w\<lparr>trace := trace w @ [CacheGet key]\<rparr>))
   \<and> (params request ''photoId'' = Some P \<and> P \<noteq> [] \<and> key = CACHE_KEYS_photoComments P
      \<and> is_hit w key \<and> \<not> faulty e (CacheGet key) \<longrightarrow>
      getComments e request w =
        (\<lparr>status = 200, jsonBody = map_option BValue (cached_value w key)\<rparr>,
         w\<lparr>trace := trace w @ [CacheGet key]\<rparr>))
   \<and> (params request ''photoId'' = Some P \<and> P \<noteq> [] \<and> key = CACHE_KEYS_photoLikes P
      \<and> cached_value w key = Some v \<and> \<not> faulty e (CacheGet key)
      \<and> \<not> faulty e (GetContainer LIKES) \<and> \<not> faulty e (Query LIKES) \<longrightarrow>
      getLikes e request w =
        (json_resp 200 (BLikes v
           (present (headers request ''x-user-id'')
            \<and> filter (\<lambda>l. l_photoId l = P \<and> Some (l_userId l) = headers request ''x-user-id'')
                 (db_likes w) \<noteq> [])),
         w\<lparr>trace := trace w @ [CacheGet key, GetContainer LIKES]
                     @ opt_call (present (headers request ''x-user-id'')) (Query LIKES)\<rparr>))
   \<and> (key = CACHE_KEYS_photos e (Num pg)
      \<and> parseInt (query_or request ''page'' ''1'') = Num pg
      \<and> parseInt (query_or request ''limit'' ''20'') = Num lim
      \<and> 1 \<le> pg \<and> 0 \<le> lim \<and> safe_integer ((pg - 1) * lim)
      \<and> \<not> is_hit w key \<and> (\<forall>op. \<not> faulty e op)
      \<and> photos = take (nat lim) (drop (nat ((pg - 1) * lim))
                    (sort_createdAt_desc p_createdAt (db_photos w))) \<longrightarrow>
      getPhotos e request w =
        (json_resp 200 (BValue (VPhotos photos)),
         w\<lparr>redis := (key, VPhotos photos, 60) # filter (\<lambda>en. fst en \<noteq> key) (redis w),
            trace := trace w @ [CacheGet key, GetContainer PHOTOS, Query PHOTOS,
                                CacheSet key 60]\<rparr>))
   \<and> (params request ''id'' = Some i \<and> i \<noteq> [] \<and> key = CACHE_KEYS_photo i \<and> \<not> is_hit w key
      \<and> (\<forall>op. \<not> faulty e op) \<and> find (\<lambda>p. p_id p = i) (db_photos w) = Some photo \<longrightarrow>
      getPhoto e request w =
        (json_resp 200 (BValue (VPhoto photo)),
         w\<lparr>redis := (key, VPhoto photo, 300) # filter (\<lambda>en. fst en \<noteq> key) (redis w),
            trace := trace w @ [CacheGet key, GetContainer PHOTOS, ItemRead PHOTOS i i,
                                CacheSet key 300]\<rparr>))
   \<and> (params request ''id'' = Some i \<and> i \<noteq> [] \<and> key = CACHE_KEYS_photo i \<and> \<not> is_hit w key
      \<and> (\<forall>op. \<not> faulty e op) \<and> find (\<lambda>p. p_id p = i) (db_photos w) = None \<longrightarrow>
      getPhoto e request w =
        (json_resp 404 (BError ''Photo not found''),
         w\<lparr>trace := trace w @ [CacheGet key, GetContainer PHOTOS, ItemRead PHOTOS i i]\<rparr>))
   \<and> (params request ''photoId'' = Some P \<and> P \<noteq> [] \<and> key = CACHE_KEYS_photoComments P
      \<and> \<not> is_hit w key \<and> (\<forall>op. \<not> faulty e op)
      \<and> comments = sort_createdAt_desc c_createdAt
                      (filter (\<lambda>c. c_photoId c = P) (db_comments w)) \<longrightarrow>
      getComments e request w =
        (json_resp 200 (BValue (VComments comments)),
         w\<lparr>redis := (key, VComments comments, 60) # filter (\<lambda>en. fst en \<noteq> key) (redis w),
            trace := trace w @ [CacheGet key, GetContainer COMMENTS, Query COMMENTS,
                                CacheSet key 60]\<rparr>))
   \<and> (params request ''photoId'' = Some P \<and> P \<noteq> [] \<and> key = CACHE_KEYS_photoLikes P
      \<and> cached_value w key = None \<and> (\<forall>op. \<not> faulty e op)
      \<and> n = int (length (filter (\<lambda>l. l_photoId l = P) (db_likes w))) \<longrightarrow>
      getLikes e request w =
        (json_resp 200 (BLikes (VNum n)
           (present (headers request ''x-user-id'')
            \<and> filter (\<lambda>l. l_photoId l = P \<and> Some (l_userId l) = headers request ''x-user-id'')
                 (db_likes w) \<noteq> [])),
         w\<lparr>redis := (key, VNum n, 60) # filter (\<lambda>en. fst en \<noteq> key) (redis w),
            trace := trace w @ [CacheGet key, GetContainer LIKES, Query LIKES, CacheSet key 60]
                     @ opt_call (present (headers request ''x-user-id'')) (Query LIKES)\<rparr>))"
proof (intro conjI impI)
  show "getPhotos e request w =
        (\<lparr>status = 200, jsonBody = map_option BValue (cached_value w key)\<rparr>,
         w\<lparr>trace := trace w @ [CacheGet key]\<rparr>)"
    if "key = CACHE_KEYS_photos e (parseInt (query_or request ''page'' ''1'')) \<and> is_hit w key
      \<and> \<not> faulty e (CacheGet key)"
    using that getPhotos_hit by blast
  show "getPhoto e request w =
        (\<lparr>status = 200, jsonBody = map_option BValue (cached_value w key)\<rparr>,
         w\<lparr>trace := trace w @ [CacheGet key]\<rparr>)"
    if "params request ''id'' = Some i \<and> i \<noteq> [] \<and> key = CACHE_KEYS_photo i \<and> is_hit w key
      \<and> \<not> faulty e (CacheGet key)"
    using that getPhoto_hit by blast
  show "getComments e request w =
        (\<lparr>status = 200, jsonBody = map_option BValue (cached_value w key)\<rparr>,
         w\<lparr>trace := trace w @ [CacheGet key]\<rparr>)"
    if "params request ''photoId'' = Some P \<and> P \<noteq> [] \<and> key = CACHE_KEYS_photoComments P
      \<and> is_hit w key \<and> \<not> faulty e (CacheGet key)"
    using that getComments_hit by blast
  show "getLikes e request w =
        (json_resp 200 (BLikes v
           (present (headers request ''x-user-id'')
            \<and> filter (\<lambda>l. l_photoId l = P \<and> Some (l_userId l) = headers request ''x-user-id'')
                 (db_likes w) \<noteq> [])),
         w\<lparr>trace := trace w @ [CacheGet key, GetContainer LIKES]
                     @ opt_call (present (headers request ''x-user-id'')) (Query LIKES)\<rparr>)"
    if "params request ''photoId'' = Some P \<and> P \<noteq> [] \<and> key = CACHE_KEYS_photoLikes P
      \<and> cached_value w key = Some v \<and> \<not> faulty e (CacheGet key)
      \<and> \<not> faulty e (GetContainer LIKES) \<and> \<not> faulty e (Query LIKES)"
    using that getLikes_hit by blast
  show "getPhotos e request w =
        (json_resp 200 (BValue (VPhotos photos)),
         w\<lparr>redis := (key, VPhotos photos, 60) # filter (\<lambda>en. fst en \<noteq> key) (redis w),
            trace := trace w @ [CacheGet key, GetContainer PHOTOS, Query PHOTOS,
                                CacheSet key 60]\<rparr>)"
    if "key = CACHE_KEYS_photos e (Num pg)
      \<and> parseInt (query_or request ''page'' ''1'') = Num pg
      \<and> parseInt (query_or request ''limit'' ''20'') = Num lim
      \<and> 1 \<le> pg \<and> 0 \<le> lim \<and> safe_integer ((pg - 1) * lim)
      \<and> \<not> is_hit w key \<and> (\<forall>op. \<not> faulty e op)
      \<and> photos = take (nat lim) (drop (nat ((pg - 1) * lim))
                    (sort_createdAt_desc p_createdAt (db_photos w)))"
    using that getPhotos_miss by blast
  show "getPhoto e request w =
        (json_resp 200 (BValue (VPhoto photo)),
         w\<lparr>redis := (key, VPhoto photo, 300) # filter (\<lambda>en. fst en \<noteq> key) (redis w),
            trace := trace w @ [CacheGet key, GetContainer PHOTOS, ItemRead PHOTOS i i,
                                CacheSet key 300]\<rparr>)"
    if "params request ''id'' = Some i \<and> i \<noteq> [] \<and> key = CACHE_KEYS_photo i \<and> \<not> is_hit w key
      \<and> (\<forall>op. \<not> faulty e op) \<and> find (\<lambda>p. p_id p = i) (db_photos w) = Some photo"
    using that getPhoto_miss_found by blast
  show "getPhoto e request w =
        (json_resp 404 (BError ''Photo not found''),
         w\<lparr>trace := trace w @ [CacheGet key, GetContainer PHOTOS, ItemRead PHOTOS i i]\<rparr>)"
    if "params request ''id'' = Some i \<and> i \<noteq> [] \<and> key = CACHE_KEYS_photo i \<and> \<not> is_hit w key
      \<and> (\<forall>op. \<not> faulty e op) \<and> find (\<lambda>p. p_id p = i) (db_photos w) = None"
    using that getPhoto_miss_absent by blast
  show "getComments e request w =
        (json_resp 200 (BValue (VComments comments)),
         w\<lparr>redis := (key, VComments comments, 60) # filter (\<lambda>en. fst en \<noteq> key) (redis w),
            trace := trace w @ [CacheGet key, GetContainer COMMENTS, Query COMMENTS,
                                CacheSet key 60]\<rparr>)"
    if "params request ''photoId'' = Some P \<and> P \<noteq> [] \<and> key = CACHE_KEYS_photoComments P
      \<and> \<not> is_hit w key \<and> (\<forall>op. \<not> faulty e op)
      \<and> comments = sort_createdAt_desc c_createdAt
                      (filter (\<lambda>c. c_photoId c = P) (db_comments w))"
    using that getComments_miss [of request P w e] by blast
  show "getLikes e request w =
        (json_resp 200 (BLikes (VNum n)
           (present (headers request ''x-user-id'')
            \<and> filter (\<lambda>l. l_photoId l = P \<and> Some (l_userId l) = headers request ''x-user-id'')
                 (db_likes w) \<noteq> [])),
         w\<lparr>redis := (key, VNum n, 60) # filter (\<lambda>en. fst en \<noteq> key) (redis w),
            trace := trace w @ [CacheGet key, GetContainer LIKES, Query LIKES, CacheSet key 60]
                     @ opt_call (present (headers request ''x-user-id'')) (Query LIKES)\<rparr>)"
    if "params request ''photoId'' = Some P \<and> P \<noteq> [] \<and> key = CACHE_KEYS_photoLikes P
      \<and> cached_value w key = None \<and> (\<forall>op. \<not> faulty e op)
      \<and> n = int (length (filter (\<lambda>l. l_photoId l = P) (db_likes w)))"
    using that getLikes_miss by blast
qed

text \<open>
  The first read of photo \<open>p1\<close> fills the cache with TTL 300; the second is served from
  it with a single call. A first read of the photo list without query parameters is the
  miss for page 1 with limit 20: it fills \<open>photos:page:1\<close> with TTL 60.
\<close>

theorem cache_aside_reads_witness:
  "getPhoto sample_env (mk_request [(''id'', ''p1'')] [] NoBody) sample_world
     = (json_resp 200 (BValue (VPhoto sample_photo)),
        sample_world\<lparr>redis := [(''photo:p1'', VPhoto sample_photo, 300)],
          trace := [CacheGet ''photo:p1'', GetContainer PHOTOS, ItemRead PHOTOS ''p1'' ''p1'',
                    CacheSet ''photo:p1'' 300]\<rparr>)
   \<and> getPhoto sample_env (mk_request [(''id'', ''p1'')] [] NoBody)
        (sample_world\<lparr>redis := [(''photo:p1'', VPhoto sample_photo, 300)]\<rparr>)
     = (json_resp 200 (BValue (VPhoto sample_photo)),
        sample_world\<lparr>redis := [(''photo:p1'', VPhoto sample_photo, 300)],
          trace := [CacheGet ''photo:p1'']\<rparr>)
   \<and> getPhotos sample_env (mk_request [] [] NoBody) sample_world
     = (json_resp 200 (BValue (VPhotos [sample_photo])),
        sample_world\<lparr>redis := [(''photos:page:1'', VPhotos [sample_photo], 60)],
          trace := [CacheGet ''photos:page:1'', GetContainer PHOTOS, Query PHOTOS,
                    CacheSet ''photos:page:1'' 60]\<rparr>)"
proof -
  let ?rq = "mk_request [(''id'', ''p1'')] [] NoBody"
  let ?w2 = "sample_world\<lparr>redis := [(''photo:p1'', VPhoto sample_photo, 300)]\<rparr>"
  let ?rl = "mk_request [] [] NoBody"
  note miss = cache_aside_reads [where request = ?rq and i = "''p1''" and key = "''photo:p1''"
        and w = sample_world and e = sample_env and photo = sample_photo,
      THEN conjunct2, THEN conjunct2, THEN conjunct2, THEN conjunct2,
      THEN conjunct2, THEN conjunct1, THEN mp]
  note hit = cache_aside_reads [where request = ?rq and i = "''p1''" and key = "''photo:p1''"
        and w = ?w2 and e = sample_env,
      THEN conjunct2, THEN conjunct1, THEN mp]
  note pmiss = cache_aside_reads [where request = ?rl and key = "''photos:page:1''"
        and w = sample_world and e = sample_env and pg = 1 and lim = 20
        and photos = "[sample_photo]",
      THEN conjunct2, THEN conjunct2, THEN conjunct2, THEN conjunct2, THEN conjunct1, THEN mp]
  have 1: "getPhoto sample_env ?rq sample_world
     = (json_resp 200 (BValue (VPhoto sample_photo)),
        sample_world\<lparr>redis := [(''photo:p1'', VPhoto sample_photo, 300)],
          trace := [CacheGet ''photo:p1'', GetContainer PHOTOS, ItemRead PHOTOS ''p1'' ''p1'',
                    CacheSet ''photo:p1'' 300]\<rparr>)"
    using miss
    by (simp add: mk_request_def key_defs is_hit_def cached_value_def sample_world_def
        sample_env_def sample_photo_def)
  have 2: "getPhoto sample_env ?rq ?w2
     = (json_resp 200 (BValue (VPhoto sample_photo)),
        sample_world\<lparr>redis := [(''photo:p1'', VPhoto sample_photo, 300)],
          trace := [CacheGet ''photo:p1'']\<rparr>)"
    using hit
    by (simp add: mk_request_def key_defs is_hit_def cached_value_def sample_world_def
        sample_env_def json_resp_def)
  have pg: "parseInt (query_or ?rl ''page'' ''1'') = Num 1"
    and lim: "parseInt (query_or ?rl ''limit'' ''20'') = Num 20"
    by (simp_all add: mk_request_def query_or_def parseInt_def is_ws_def digit_val_def
        is_digit_in_def digits_value_def js_num_def safe_integer_def Let_def)
  have "string_of_nat 1 = ''1''"
    by code_simp
  then have key: "''photos:page:1'' = CACHE_KEYS_photos sample_env (Num 1)"
    by (simp add: CACHE_KEYS_photos_def js_string_of_num_def safe_integer_def)
  have nohit: "\<not> is_hit sample_world ''photos:page:1''"
    by (simp add: is_hit_def cached_value_def sample_world_def)
  have nf: "\<forall>op. \<not> faulty sample_env op"
    by (simp add: sample_env_def)
  have ph: "[sample_photo] = take (nat 20) (drop (nat ((1 - 1) * 20))
              (sort_createdAt_desc p_createdAt (db_photos sample_world)))"
    by (simp add: sample_world_def sort_createdAt_desc_def)
  have "getPhotos sample_env ?rl sample_world
     = (json_resp 200 (BValue (VPhotos [sample_photo])),
        sample_world\<lparr>redis := (''photos:page:1'', VPhotos [sample_photo], 60)
                       # filter (\<lambda>en. fst en \<noteq> ''photos:page:1'') (redis sample_world),
          trace := trace sample_world @ [CacheGet ''photos:page:1'', GetContainer PHOTOS,
                    Query PHOTOS, CacheSet ''photos:page:1'' 60]\<rparr>)"
    using pg lim key nohit nf ph by (intro pmiss conjI) (simp_all add: safe_integer_def)
  then have 3: "getPhotos sample_env ?rl sample_world
     = (json_resp 200 (BValue (VPhotos [sample_photo])),
        sample_world\<lparr>redis := [(''photos:page:1'', VPhotos [sample_photo], 60)],
          trace := [CacheGet ''photos:page:1'', GetContainer PHOTOS, Query PHOTOS,
                    CacheSet ''photos:page:1'' 60]\<rparr>)"
    by (simp add: sample_world_def)
  from 1 2 3 show ?thesis by simp
qed

end
